theory Spec2Isabelle
  imports Complex_Main
begin

section \<open>JavaScript values used by the generators\<close>

text \<open>
  Strings are byte lists holding the UTF-8 encoding of the JavaScript string; for
  ASCII text the two coincide. Substring search (\<open>String.includes\<close>) on well-formed
  UTF-8 agrees with the search on code units. A value of type \<open>string | undefined\<close>
  (or \<open>string | null\<close>) is a \<open>string option\<close>, and \<open>truthy\<close> is JavaScript's
  test \<open>if (v)\<close> on it: false for \<open>undefined\<close>, \<open>null\<close> and the empty string.
\<close>

definition truthy :: "string option \<Rightarrow> bool" where
  "truthy v = (case v of None \<Rightarrow> False | Some s \<Rightarrow> s \<noteq> [])"

text \<open>\<open>a || b\<close> on strings.\<close>

definition or_else :: "string \<Rightarrow> string \<Rightarrow> string" where
  "or_else a b = (if a = [] then b else a)"

definition startsWith :: "string \<Rightarrow> string \<Rightarrow> bool" where
  "startsWith s p = (take (length p) s = p)"

fun str_includes :: "string \<Rightarrow> string \<Rightarrow> bool" where
  "str_includes [] p = (p = [])"
| "str_includes (c # cs) p = (startsWith (c # cs) p \<or> str_includes cs p)"

text \<open>\<open>s.split(sep)\<close> for a one-character separator: never the empty list.\<close>

fun str_split :: "char \<Rightarrow> string \<Rightarrow> string list" where
  "str_split sep [] = [[]]"
| "str_split sep (c # cs) =
     (if c = sep then [] # str_split sep cs
      else (case str_split sep cs of
              [] \<Rightarrow> [[c]]
            | p # ps \<Rightarrow> (c # p) # ps))"

text \<open>
  \<open>s.length\<close> counts UTF-16 code units: one per code point, two for a code point
  outside the basic plane (a four-byte UTF-8 sequence, whose lead byte is at least 0xF0).
  Continuation bytes (0x80 to 0xBF) count nothing.
\<close>

definition js_length :: "string \<Rightarrow> nat" where
  "js_length s =
     length (filter (\<lambda>c. (of_char c :: nat) div 64 \<noteq> 2) s)
     + length (filter (\<lambda>c. 240 \<le> (of_char c :: nat)) s)"

text \<open>Decimal rendering of a natural number, as a template literal prints it.\<close>

fun show_nat :: "nat \<Rightarrow> string" where
  "show_nat n =
     (if n < 10 then [''0123456789'' ! n]
      else show_nat (n div 10) @ [''0123456789'' ! (n mod 10)])"

declare show_nat.simps [simp del]

definition show_int :: "int \<Rightarrow> string" where
  "show_int i = (if i < 0 then CHR ''-'' # show_nat (nat (- i)) else show_nat (nat i))"

subsection \<open>\<open>parseInt\<close>\<close>

text \<open>
  \<open>parseInt(s)\<close> without a radix: leading white space is skipped, one sign is read,
  a prefix \<open>0x\<close> or \<open>0X\<close> selects base 16, and the longest run of digits of the
  base is the value; with no digit the result is \<open>NaN\<close>, here \<open>None\<close>. Whatever
  follows the digits is ignored. The white space of ECMAScript is given by its UTF-8
  bytes: TAB, LF, VT, FF, CR, SP, U+00A0, U+1680, U+2000 to U+200A, U+2028, U+2029,
  U+202F, U+205F, U+3000 and U+FEFF.
\<close>

definition ascii_space :: "char \<Rightarrow> bool" where
  "ascii_space c = ((of_char c :: nat) \<in> {9, 10, 11, 12, 13, 32})"

definition wide_space :: "string \<Rightarrow> nat" where
  "wide_space s =
     (case map of_char (take 3 s) :: nat list of
        [a, b, c] \<Rightarrow>
          (if a = 0xC2 \<and> b = 0xA0 then 2
           else if a = 0xE1 \<and> b = 0x9A \<and> c = 0x80 then 3
           else if a = 0xE2 \<and> b = 0x80 \<and> (0x80 \<le> c \<and> c \<le> 0x8A \<or> c = 0xA8 \<or> c = 0xA9 \<or> c = 0xAF) then 3
           else if a = 0xE2 \<and> b = 0x81 \<and> c = 0x9F then 3
           else if a = 0xE3 \<and> b = 0x80 \<and> c = 0x80 then 3
           else if a = 0xEF \<and> b = 0xBB \<and> c = 0xBF then 3
           else 0)
      | [a, b] \<Rightarrow> (if a = 0xC2 \<and> b = 0xA0 then 2 else 0)
      | _ \<Rightarrow> 0)"

fun trimStart :: "string \<Rightarrow> string" where
  "trimStart [] = []"
| "trimStart (c # cs) =
     (if ascii_space c then trimStart cs
      else if wide_space (c # cs) = 2 then trimStart (drop 1 cs)
      else if wide_space (c # cs) = 3 then trimStart (drop 2 cs)
      else c # cs)"

definition digit_of :: "nat \<Rightarrow> char \<Rightarrow> nat option" where
  "digit_of radix c =
     (let n = (of_char c :: nat);
          v = (if 48 \<le> n \<and> n \<le> 57 then Some (n - 48)
               else if 97 \<le> n \<and> n \<le> 122 then Some (n - 87)
               else if 65 \<le> n \<and> n \<le> 90 then Some (n - 55)
               else None)
      in case v of None \<Rightarrow> None | Some d \<Rightarrow> (if d < radix then Some d else None))"

fun digits_value :: "nat \<Rightarrow> nat \<Rightarrow> string \<Rightarrow> nat" where
  "digits_value radix acc [] = acc"
| "digits_value radix acc (c # cs) =
     (case digit_of radix c of
        None \<Rightarrow> acc
      | Some d \<Rightarrow> digits_value radix (acc * radix + d) cs)"

definition parseInt :: "string \<Rightarrow> int option" where
  "parseInt s =
     (let s1 = trimStart s;
          neg = startsWith s1 ''-'' ;
          s2 = (if startsWith s1 ''-'' \<or> startsWith s1 ''+'' then drop 1 s1 else s1);
          hex = (startsWith s2 ''0x'' \<or> startsWith s2 ''0X'');
          radix = (if hex then 16 else 10);
          s3 = (if hex then drop 2 s2 else s2)
      in case s3 of
           [] \<Rightarrow> None
         | c # cs \<Rightarrow>
             (case digit_of radix c of
                None \<Rightarrow> None
              | Some d \<Rightarrow>
                  Some ((if neg then - 1 else 1) * int (digits_value radix 0 s3))))"

text \<open>
  \<open>Math.round\<close> rounds to the nearest integer, halves upwards. Numbers are modelled
  as reals: \<open>Math.sqrt\<close> is the exact square root, and no rounding of the binary
  floating-point format or overflow is modelled.
\<close>

definition Math_round :: "real \<Rightarrow> int" where
  "Math_round x = \<lfloor>x + 1 / 2\<rfloor>"

section \<open>Types of the application (\<open>types.ts\<close>)\<close>

datatype ModelType = FLASH | PRO

definition ModelType_val :: "ModelType \<Rightarrow> string" where
  "ModelType_val m = (case m of FLASH \<Rightarrow> ''gemini-2.5-flash-image'' | PRO \<Rightarrow> ''gemini-3-pro-image-preview'')"

datatype AspectRatio =
  SQUARE | PORTRAIT | VERTICAL | LANDSCAPE | WIDESCREEN | ULTRAWIDE | ULTRATALL | CUSTOM

definition AspectRatio_val :: "AspectRatio \<Rightarrow> string" where
  "AspectRatio_val a =
     (case a of
        SQUARE \<Rightarrow> ''1:1'' | PORTRAIT \<Rightarrow> ''3:4'' | VERTICAL \<Rightarrow> ''9:16''
      | LANDSCAPE \<Rightarrow> ''4:3'' | WIDESCREEN \<Rightarrow> ''16:9'' | ULTRAWIDE \<Rightarrow> ''18:8''
      | ULTRATALL \<Rightarrow> ''8:18'' | CUSTOM \<Rightarrow> ''custom'')"

datatype ImageSize = Size_1K | Size_2K | Size_4K

datatype VolcengineModel = SEEDDREAM_4_0 | SEEDDREAM_4_5

datatype VolcengineResolution = K2 | K4

text \<open>
  \<open>GeneratorType\<close> is a string enum, and the settings that carry it are read back from
  local storage without validation, so a provider identifier is any string at run time.
  The current \<open>types.ts\<close> knows \<open>gemini\<close> and \<open>volcengine\<close>; the earlier one knew
  \<open>gemini\<close>, \<open>dalle\<close> and \<open>stability\<close>.
\<close>

type_synonym GeneratorType = string

definition GEMINI :: GeneratorType where "GEMINI = ''gemini''"
definition VOLCENGINE :: GeneratorType where "VOLCENGINE = ''volcengine''"
definition DALLE :: GeneratorType where "DALLE = ''dalle''"
definition STABILITY :: GeneratorType where "STABILITY = ''stability''"

definition VOLCENGINE_ASPECT_RATIOS :: "(AspectRatio \<times> string \<times> string) list" where
  "VOLCENGINE_ASPECT_RATIOS =
     [(SQUARE, ''1:1'', ''1024x1024''),
      (LANDSCAPE, ''4:3'', ''1152x864''),
      (PORTRAIT, ''3:4'', ''864x1152''),
      (WIDESCREEN, ''16:9'', ''1280x720''),
      (VERTICAL, ''9:16'', ''720x1280''),
      (ULTRAWIDE, ''21:9'', ''1512x648''),
      (ULTRATALL, ''9:21'', ''648x1512'')]"

record ApiKeys =
  geminiApiKey :: "string option"
  volcengineAccessKey :: "string option"
  volcengineSecretKey :: "string option"
  volcengineEndpoint :: "string option"

record GenerationSettings =
  pptStyle :: string
  colorScheme :: string
  designRequirements :: string
  referenceImage :: "string option"
  model :: ModelType
  aspectRatio :: AspectRatio
  customAspectRatio :: "string option"
  imageSize :: ImageSize
  generatorType :: GeneratorType
  volcengineModel :: VolcengineModel
  volcengineResolution :: VolcengineResolution

datatype SlideStatus = status_idle | status_generating | status_success | status_error

record SlideData =
  slide_id :: string
  contentPrompt :: string
  contentImage :: "string option"
  generatedImages :: "string list"
  variantCount :: nat
  status :: SlideStatus
  errorMessage :: "string option"

text \<open>The build-time environment (\<open>vite.config.ts\<close> defines these \<open>process.env\<close> entries).\<close>

record Env =
  API_KEY :: "string option"
  OPENAI_API_KEY :: "string option"
  STABILITY_API_KEY :: "string option"

subsection \<open>Thrown values\<close>

text \<open>
  What a \<open>catch\<close> clause reads of a thrown value: its \<open>name\<close> and \<open>message\<close>, the
  \<open>status\<close> and \<open>code\<close> an SDK error may carry (a number, a string or nothing), and
  \<open>JSON.stringify\<close> of the value, which the code falls back to when the message is
  empty. \<open>new Error(m)\<close> has no status or code and stringifies to \<open>{}\<close>.
\<close>

datatype jsval = Undefined | Num int | Str string

definition jsval_truthy :: "jsval \<Rightarrow> bool" where
  "jsval_truthy v = (case v of Undefined \<Rightarrow> False | Num n \<Rightarrow> n \<noteq> 0 | Str s \<Rightarrow> s \<noteq> [])"

record thrown =
  e_name :: string
  e_message :: string
  e_status :: jsval
  e_code :: jsval
  e_json :: string

definition Error :: "string \<Rightarrow> thrown" where
  "Error m = \<lparr>e_name = ''Error'', e_message = m, e_status = Undefined, e_code = Undefined, e_json = ''{}''\<rparr>"

text \<open>\<open>error.toString()\<close> of an error object.\<close>

definition error_toString :: "thrown \<Rightarrow> string" where
  "error_toString e =
     (if e_name e = [] then e_message e
      else if e_message e = [] then e_name e
      else e_name e @ '': '' @ e_message e)"

text \<open>
  What a run does to the outside, in order: a request sent (with the request itself) and
  a timer awaited (in milliseconds).
\<close>

datatype 'r event = Invoke 'r | Sleep nat

section \<open>String literals of the source\<close>

text \<open>
  The Chinese string literals of the source, as their UTF-8 bytes; the comment of each
  gives its meaning. Line feeds inside a literal are the byte 0x0A.
\<close>

definition MSG_GEMINI_KEY :: string where \<comment> \<open>Please fill in the Gemini API Key in the settings\<close>
  "MSG_GEMINI_KEY =
     [CHR 0xE8, CHR 0xAF, CHR 0xB7, CHR 0xE5, CHR 0x9C, CHR 0xA8, CHR 0xE8, CHR 0xAE, CHR 0xBE,
     CHR 0xE7, CHR 0xBD, CHR 0xAE, CHR 0xE4, CHR 0xB8, CHR 0xAD, CHR 0xE5, CHR 0xA1, CHR 0xAB,
     CHR 0xE5, CHR 0x86, CHR 0x99] @ '' Gemini API Key''"

definition MSG_VOLCENGINE_KEY :: string where \<comment> \<open>Please fill in the Volcengine Ark API Key in the settings\<close>
  "MSG_VOLCENGINE_KEY =
     [CHR 0xE8, CHR 0xAF, CHR 0xB7, CHR 0xE5, CHR 0x9C, CHR 0xA8, CHR 0xE8, CHR 0xAE, CHR 0xBE,
     CHR 0xE7, CHR 0xBD, CHR 0xAE, CHR 0xE4, CHR 0xB8, CHR 0xAD, CHR 0xE5, CHR 0xA1, CHR 0xAB,
     CHR 0xE5, CHR 0x86, CHR 0x99, CHR 0xE7, CHR 0x81, CHR 0xAB, CHR 0xE5, CHR 0xB1, CHR 0xB1,
     CHR 0xE6, CHR 0x96, CHR 0xB9, CHR 0xE8, CHR 0x88, CHR 0x9F] @ '' API Key''"

definition MSG_VOLCENGINE_KEY_UNSET :: string where \<comment> \<open>Volcengine Ark API Key is not set, please fill it in in the settings\<close>
  "MSG_VOLCENGINE_KEY_UNSET =
     [CHR 0xE7, CHR 0x81, CHR 0xAB, CHR 0xE5, CHR 0xB1, CHR 0xB1, CHR 0xE6, CHR 0x96, CHR 0xB9,
     CHR 0xE8, CHR 0x88, CHR 0x9F] @ '' API Key '' @ [CHR 0xE6, CHR 0x9C, CHR 0xAA, CHR 0xE8,
     CHR 0xAE, CHR 0xBE, CHR 0xE7, CHR 0xBD, CHR 0xAE, CHR 0xEF, CHR 0xBC, CHR 0x8C, CHR 0xE8,
     CHR 0xAF, CHR 0xB7, CHR 0xE5, CHR 0x9C, CHR 0xA8, CHR 0xE8, CHR 0xAE, CHR 0xBE, CHR 0xE7,
     CHR 0xBD, CHR 0xAE, CHR 0xE4, CHR 0xB8, CHR 0xAD, CHR 0xE5, CHR 0xA1, CHR 0xAB, CHR 0xE5,
     CHR 0x86, CHR 0x99]"

definition MSG_NETWORK :: string where \<comment> \<open>Network request failed, please check: 1) the API Key, 2) access to the Volcengine Ark service, 3) try a proxy.\<close>
  "MSG_NETWORK =
     [CHR 0xE7, CHR 0xBD, CHR 0x91, CHR 0xE7, CHR 0xBB, CHR 0x9C, CHR 0xE8, CHR 0xAF, CHR 0xB7,
     CHR 0xE6, CHR 0xB1, CHR 0x82, CHR 0xE5, CHR 0xA4, CHR 0xB1, CHR 0xE8, CHR 0xB4, CHR 0xA5,
     CHR 0xEF, CHR 0xBC, CHR 0x8C, CHR 0xE8, CHR 0xAF, CHR 0xB7, CHR 0xE6, CHR 0xA3, CHR 0x80,
     CHR 0xE6, CHR 0x9F, CHR 0xA5, CHR 0xEF, CHR 0xBC, CHR 0x9A] @ ''1) API Key '' @ [CHR 0xE6,
     CHR 0x98, CHR 0xAF, CHR 0xE5, CHR 0x90, CHR 0xA6, CHR 0xE6, CHR 0xAD, CHR 0xA3, CHR 0xE7,
     CHR 0xA1, CHR 0xAE, CHR 0xEF, CHR 0xBC, CHR 0x9B] @ ''2) '' @ [CHR 0xE7, CHR 0xBD, CHR
     0x91, CHR 0xE7, CHR 0xBB, CHR 0x9C, CHR 0xE6, CHR 0x98, CHR 0xAF, CHR 0xE5, CHR 0x90, CHR
     0xA6, CHR 0xE8, CHR 0x83, CHR 0xBD, CHR 0xE6, CHR 0xAD, CHR 0xA3, CHR 0xE5, CHR 0xB8, CHR
     0xB8, CHR 0xE8, CHR 0xAE, CHR 0xBF, CHR 0xE9, CHR 0x97, CHR 0xAE, CHR 0xE7, CHR 0x81, CHR
     0xAB, CHR 0xE5, CHR 0xB1, CHR 0xB1, CHR 0xE6, CHR 0x96, CHR 0xB9, CHR 0xE8, CHR 0x88, CHR
     0x9F, CHR 0xE6, CHR 0x9C, CHR 0x8D, CHR 0xE5, CHR 0x8A, CHR 0xA1, CHR 0xEF, CHR 0xBC, CHR
     0x9B] @ ''3) '' @ [CHR 0xE5, CHR 0xB0, CHR 0x9D, CHR 0xE8, CHR 0xAF, CHR 0x95, CHR 0xE4,
     CHR 0xBD, CHR 0xBF, CHR 0xE7, CHR 0x94, CHR 0xA8, CHR 0xE4, CHR 0xBB, CHR 0xA3, CHR 0xE7,
     CHR 0x90, CHR 0x86, CHR 0xE3, CHR 0x80, CHR 0x82]"

definition MSG_GENERATION_FAILED :: string where \<comment> \<open>Image generation failed\<close>
  "MSG_GENERATION_FAILED =
     [CHR 0xE5, CHR 0x9B, CHR 0xBE, CHR 0xE5, CHR 0x83, CHR 0x8F, CHR 0xE7, CHR 0x94, CHR 0x9F,
     CHR 0xE6, CHR 0x88, CHR 0x90, CHR 0xE5, CHR 0xA4, CHR 0xB1, CHR 0xE8, CHR 0xB4, CHR 0xA5]"

definition TXT_UNSET :: string where \<comment> \<open>not set\<close>
  "TXT_UNSET =
     [CHR 0xE6, CHR 0x9C, CHR 0xAA, CHR 0xE8, CHR 0xAE, CHR 0xBE, CHR 0xE7, CHR 0xBD, CHR 0xAE]"

definition MSG_FAILED :: string where \<comment> \<open>Generation failed\<close>
  "MSG_FAILED =
     [CHR 0xE7, CHR 0x94, CHR 0x9F, CHR 0xE6, CHR 0x88, CHR 0x90, CHR 0xE5, CHR 0xA4, CHR 0xB1,
     CHR 0xE8, CHR 0xB4, CHR 0xA5]"

definition TXT_KEY_FILLED :: string where \<comment> \<open>API Key filled in, length: \<close>
  "TXT_KEY_FILLED =
     ''API Key'' @ [CHR 0xE5, CHR 0xB7, CHR 0xB2, CHR 0xE5, CHR 0xA1, CHR 0xAB, CHR 0xE5, CHR
     0x86, CHR 0x99, CHR 0xEF, CHR 0xBC, CHR 0x8C, CHR 0xE9, CHR 0x95, CHR 0xBF, CHR 0xE5, CHR
     0xBA, CHR 0xA6] @ '': ''"

definition TXT_STILL_ERROR :: string where \<comment> \<open>, but the error is still reported: \<close>
  "TXT_STILL_ERROR =
     [CHR 0xEF, CHR 0xBC, CHR 0x8C, CHR 0xE4, CHR 0xBD, CHR 0x86, CHR 0xE4, CHR 0xBB, CHR 0x8D,
     CHR 0xE6, CHR 0x8F, CHR 0x90, CHR 0xE7, CHR 0xA4, CHR 0xBA, CHR 0xE9, CHR 0x94, CHR 0x99,
     CHR 0xE8, CHR 0xAF, CHR 0xAF] @ '': ''"

definition DEFAULT_STYLE :: string where \<comment> \<open>modern minimalist business\<close>
  "DEFAULT_STYLE =
     [CHR 0xE7, CHR 0x8E, CHR 0xB0, CHR 0xE4, CHR 0xBB, CHR 0xA3, CHR 0xE6, CHR 0x9E, CHR 0x81,
     CHR 0xE7, CHR 0xAE, CHR 0x80, CHR 0xE5, CHR 0x95, CHR 0x86, CHR 0xE5, CHR 0x8A, CHR 0xA1]"

definition DEFAULT_COLOR :: string where \<comment> \<open>professional dark blue with white\<close>
  "DEFAULT_COLOR =
     [CHR 0xE4, CHR 0xB8, CHR 0x93, CHR 0xE4, CHR 0xB8, CHR 0x9A, CHR 0xE6, CHR 0xB7, CHR 0xB1,
     CHR 0xE8, CHR 0x93, CHR 0x9D, CHR 0xE4, CHR 0xB8, CHR 0x8E, CHR 0xE7, CHR 0x99, CHR 0xBD,
     CHR 0xE8, CHR 0x89, CHR 0xB2, CHR 0xE6, CHR 0x90, CHR 0xAD, CHR 0xE9, CHR 0x85, CHR 0x8D]"

definition DEFAULT_REQUIREMENTS :: string where \<comment> \<open>tidy layout, clear emphasis, distinct hierarchy\<close>
  "DEFAULT_REQUIREMENTS =
     [CHR 0xE6, CHR 0x8E, CHR 0x92, CHR 0xE7, CHR 0x89, CHR 0x88, CHR 0xE6, CHR 0x95, CHR 0xB4,
     CHR 0xE6, CHR 0xB4, CHR 0x81, CHR 0xEF, CHR 0xBC, CHR 0x8C, CHR 0xE9, CHR 0x87, CHR 0x8D,
     CHR 0xE7, CHR 0x82, CHR 0xB9, CHR 0xE7, CHR 0xAA, CHR 0x81, CHR 0xE5, CHR 0x87, CHR 0xBA,
     CHR 0xEF, CHR 0xBC, CHR 0x8C, CHR 0xE5, CHR 0xB1, CHR 0x82, CHR 0xE7, CHR 0xBA, CHR 0xA7,
     CHR 0xE5, CHR 0x88, CHR 0x86, CHR 0xE6, CHR 0x98, CHR 0x8E]"

definition DEFAULT_CONTENT :: string where \<comment> \<open>title page showing the main topic\<close>
  "DEFAULT_CONTENT =
     [CHR 0xE6, CHR 0xA0, CHR 0x87, CHR 0xE9, CHR 0xA2, CHR 0x98, CHR 0xE9, CHR 0xA1, CHR 0xB5,
     CHR 0xEF, CHR 0xBC, CHR 0x8C, CHR 0xE5, CHR 0xB1, CHR 0x95, CHR 0xE7, CHR 0xA4, CHR 0xBA,
     CHR 0xE4, CHR 0xB8, CHR 0xBB, CHR 0xE8, CHR 0xA6, CHR 0x81, CHR 0xE8, CHR 0xAE, CHR 0xAE,
     CHR 0xE9, CHR 0xA2, CHR 0x98]"

definition VOLCENGINE_DEFAULT_CONTENT :: string where \<comment> \<open>title page design\<close>
  "VOLCENGINE_DEFAULT_CONTENT =
     [CHR 0xE6, CHR 0xA0, CHR 0x87, CHR 0xE9, CHR 0xA2, CHR 0x98, CHR 0xE9, CHR 0xA1, CHR 0xB5,
     CHR 0xE8, CHR 0xAE, CHR 0xBE, CHR 0xE8, CHR 0xAE, CHR 0xA1]"

definition G_HEAD :: string where \<comment> \<open>Design a professional PPT slide page. [Design rules] - Style: \<close>
  "G_HEAD =
     [CHR 0xE8, CHR 0xAE, CHR 0xBE, CHR 0xE8, CHR 0xAE, CHR 0xA1, CHR 0xE4, CHR 0xB8, CHR 0x80,
     CHR 0xE5, CHR 0xBC, CHR 0xA0, CHR 0xE4, CHR 0xB8, CHR 0x93, CHR 0xE4, CHR 0xB8, CHR 0x9A,
     CHR 0xE7, CHR 0x9A, CHR 0x84] @ ''PPT'' @ [CHR 0xE5, CHR 0xB9, CHR 0xBB, CHR 0xE7, CHR
     0x81, CHR 0xAF, CHR 0xE7, CHR 0x89, CHR 0x87, CHR 0xE9, CHR 0xA1, CHR 0xB5, CHR 0xE9, CHR
     0x9D, CHR 0xA2, CHR 0xE3, CHR 0x80, CHR 0x82, CHR 0x0A, CHR 0x0A, CHR 0xE3, CHR 0x80, CHR
     0x90, CHR 0xE8, CHR 0xAE, CHR 0xBE, CHR 0xE8, CHR 0xAE, CHR 0xA1, CHR 0xE8, CHR 0xA7, CHR
     0x84, CHR 0xE8, CHR 0x8C, CHR 0x83, CHR 0xE3, CHR 0x80, CHR 0x91, CHR 0x0A] @ ''- '' @ [CHR
     0xE9, CHR 0xA3, CHR 0x8E, CHR 0xE6, CHR 0xA0, CHR 0xBC, CHR 0xE6, CHR 0xB5, CHR 0x81, CHR
     0xE6, CHR 0xB4, CHR 0xBE] @ '': ''"

definition G_COLOR :: string where \<comment> \<open>- Colour scheme: \<close>
  "G_COLOR =
     [CHR 0x0A] @ ''- '' @ [CHR 0xE9, CHR 0x85, CHR 0x8D, CHR 0xE8, CHR 0x89, CHR 0xB2, CHR
     0xE6, CHR 0x96, CHR 0xB9, CHR 0xE6, CHR 0xA1, CHR 0x88] @ '': ''"

definition G_REQUIREMENTS :: string where \<comment> \<open>- Specific design requirements: \<close>
  "G_REQUIREMENTS =
     [CHR 0x0A] @ ''- '' @ [CHR 0xE5, CHR 0x85, CHR 0xB7, CHR 0xE4, CHR 0xBD, CHR 0x93, CHR
     0xE8, CHR 0xAE, CHR 0xBE, CHR 0xE8, CHR 0xAE, CHR 0xA1, CHR 0xE8, CHR 0xA6, CHR 0x81, CHR
     0xE6, CHR 0xB1, CHR 0x82] @ '': ''"

definition G_CONTENT :: string where \<comment> \<open>[Content of this page] - Core content: \<close>
  "G_CONTENT =
     [CHR 0x0A, CHR 0x0A, CHR 0xE3, CHR 0x80, CHR 0x90, CHR 0xE6, CHR 0x9C, CHR 0xAC, CHR 0xE9,
     CHR 0xA1, CHR 0xB5, CHR 0xE5, CHR 0x86, CHR 0x85, CHR 0xE5, CHR 0xAE, CHR 0xB9, CHR 0xE3,
     CHR 0x80, CHR 0x91, CHR 0x0A] @ ''- '' @ [CHR 0xE6, CHR 0xA0, CHR 0xB8, CHR 0xE5, CHR 0xBF,
     CHR 0x83, CHR 0xE5, CHR 0x86, CHR 0x85, CHR 0xE5, CHR 0xAE, CHR 0xB9] @ '': ''"

definition G_REFERENCE :: string where \<comment> \<open>[Reference] Follow the visual style, colours and layout of the first image strictly.\<close>
  "G_REFERENCE =
     [CHR 0x0A, CHR 0x0A, CHR 0xE3, CHR 0x80, CHR 0x90, CHR 0xE5, CHR 0x8F, CHR 0x82, CHR 0xE8,
     CHR 0x80, CHR 0x83, CHR 0xE8, CHR 0xAF, CHR 0xB4, CHR 0xE6, CHR 0x98, CHR 0x8E, CHR 0xE3,
     CHR 0x80, CHR 0x91, CHR 0x0A, CHR 0xE8, CHR 0xAF, CHR 0xB7, CHR 0xE4, CHR 0xB8, CHR 0xA5,
     CHR 0xE6, CHR 0xA0, CHR 0xBC, CHR 0xE5, CHR 0x8F, CHR 0x82, CHR 0xE8, CHR 0x80, CHR 0x83,
     CHR 0xE6, CHR 0x8F, CHR 0x90, CHR 0xE4, CHR 0xBE, CHR 0x9B, CHR 0xE7, CHR 0x9A, CHR 0x84,
     CHR 0xE7, CHR 0xAC, CHR 0xAC, CHR 0xE4, CHR 0xB8, CHR 0x80, CHR 0xE5, CHR 0xBC, CHR 0xA0,
     CHR 0xE5, CHR 0x9B, CHR 0xBE, CHR 0xE7, CHR 0x89, CHR 0x87, CHR 0xE7, CHR 0x9A, CHR 0x84,
     CHR 0xE8, CHR 0xA7, CHR 0x86, CHR 0xE8, CHR 0xA7, CHR 0x89, CHR 0xE9, CHR 0xA3, CHR 0x8E,
     CHR 0xE6, CHR 0xA0, CHR 0xBC, CHR 0xE3, CHR 0x80, CHR 0x81, CHR 0xE9, CHR 0x85, CHR 0x8D,
     CHR 0xE8, CHR 0x89, CHR 0xB2, CHR 0xE5, CHR 0x92, CHR 0x8C, CHR 0xE5, CHR 0xB8, CHR 0x83,
     CHR 0xE5, CHR 0xB1, CHR 0x80, CHR 0xE6, CHR 0x84, CHR 0x9F, CHR 0xE3, CHR 0x80, CHR 0x82]"

definition G_IMAGE :: string where \<comment> \<open>[Content optimisation] Redraw the supplied content image professionally, keeping the key information.\<close>
  "G_IMAGE =
     [CHR 0x0A, CHR 0x0A, CHR 0xE3, CHR 0x80, CHR 0x90, CHR 0xE5, CHR 0x86, CHR 0x85, CHR 0xE5,
     CHR 0xAE, CHR 0xB9, CHR 0xE4, CHR 0xBC, CHR 0x98, CHR 0xE5, CHR 0x8C, CHR 0x96, CHR 0xE8,
     CHR 0xAF, CHR 0xB4, CHR 0xE6, CHR 0x98, CHR 0x8E, CHR 0xE3, CHR 0x80, CHR 0x91, CHR 0x0A,
     CHR 0xE8, CHR 0xAF, CHR 0xB7, CHR 0xE5, CHR 0x9F, CHR 0xBA, CHR 0xE4, CHR 0xBA, CHR 0x8E,
     CHR 0xE6, CHR 0x8F, CHR 0x90, CHR 0xE4, CHR 0xBE, CHR 0x9B, CHR 0xE7, CHR 0x9A, CHR 0x84,
     CHR 0xE5, CHR 0x85, CHR 0xB7, CHR 0xE4, CHR 0xBD, CHR 0x93, CHR 0xE5, CHR 0x86, CHR 0x85,
     CHR 0xE5, CHR 0xAE, CHR 0xB9, CHR 0xE5, CHR 0x9B, CHR 0xBE, CHR 0xE7, CHR 0x89, CHR 0x87,
     CHR 0xEF, CHR 0xBC, CHR 0x88, CHR 0xE5, CHR 0x9B, CHR 0xBE, CHR 0xE8, CHR 0xA1, CHR 0xA8] @
     ''/'' @ [CHR 0xE6, CHR 0x88, CHR 0xAA, CHR 0xE5, CHR 0x9B, CHR 0xBE] @ ''/'' @ [CHR 0xE8,
     CHR 0x8D, CHR 0x89, CHR 0xE5, CHR 0x9B, CHR 0xBE, CHR 0xEF, CHR 0xBC, CHR 0x89, CHR 0xE8,
     CHR 0xBF, CHR 0x9B, CHR 0xE8, CHR 0xA1, CHR 0x8C, CHR 0xE4, CHR 0xB8, CHR 0x93, CHR 0xE4,
     CHR 0xB8, CHR 0x9A, CHR 0xE5, CHR 0x8C, CHR 0x96, CHR 0xE9, CHR 0x87, CHR 0x8D, CHR 0xE7,
     CHR 0xBB, CHR 0x98, CHR 0xE5, CHR 0x92, CHR 0x8C, CHR 0xE6, CHR 0x8E, CHR 0x92, CHR 0xE7,
     CHR 0x89, CHR 0x88, CHR 0xE4, CHR 0xBC, CHR 0x98, CHR 0xE5, CHR 0x8C, CHR 0x96, CHR 0xEF,
     CHR 0xBC, CHR 0x8C, CHR 0xE4, CHR 0xBF, CHR 0x9D, CHR 0xE7, CHR 0x95, CHR 0x99, CHR 0xE5,
     CHR 0x85, CHR 0xB3, CHR 0xE9, CHR 0x94, CHR 0xAE, CHR 0xE4, CHR 0xBF, CHR 0xA1, CHR 0xE6,
     CHR 0x81, CHR 0xAF, CHR 0xE3, CHR 0x80, CHR 0x82]"

definition G_CLOSING :: string where \<comment> \<open>Follow the style and colours above strictly and output one slide design of high quality without garbled text.\<close>
  "G_CLOSING =
     [CHR 0x0A, CHR 0x0A, CHR 0xE8, CHR 0xAF, CHR 0xB7, CHR 0xE4, CHR 0xB8, CHR 0xA5, CHR 0xE6,
     CHR 0xA0, CHR 0xBC, CHR 0xE9, CHR 0x81, CHR 0xB5, CHR 0xE5, CHR 0xBE, CHR 0xAA, CHR 0xE4,
     CHR 0xB8, CHR 0x8A, CHR 0xE8, CHR 0xBF, CHR 0xB0, CHR 0xE9, CHR 0xA3, CHR 0x8E, CHR 0xE6,
     CHR 0xA0, CHR 0xBC, CHR 0xE4, CHR 0xB8, CHR 0x8E, CHR 0xE9, CHR 0x85, CHR 0x8D, CHR 0xE8,
     CHR 0x89, CHR 0xB2, CHR 0xEF, CHR 0xBC, CHR 0x8C, CHR 0xE8, CHR 0xBE, CHR 0x93, CHR 0xE5,
     CHR 0x87, CHR 0xBA, CHR 0xE4, CHR 0xB8, CHR 0x80, CHR 0xE5, CHR 0xBC, CHR 0xA0, CHR 0xE9,
     CHR 0xAB, CHR 0x98, CHR 0xE5, CHR 0x93, CHR 0x81, CHR 0xE8, CHR 0xB4, CHR 0xA8, CHR 0xE3,
     CHR 0x80, CHR 0x81, CHR 0xE6, CHR 0x97, CHR 0xA0, CHR 0xE4, CHR 0xB9, CHR 0xB1, CHR 0xE7,
     CHR 0xA0, CHR 0x81, CHR 0xE7, CHR 0x9A, CHR 0x84, CHR 0xE5, CHR 0xB9, CHR 0xBB, CHR 0xE7,
     CHR 0x81, CHR 0xAF, CHR 0xE7, CHR 0x89, CHR 0x87, CHR 0xE8, CHR 0xAE, CHR 0xBE, CHR 0xE8,
     CHR 0xAE, CHR 0xA1, CHR 0xE5, CHR 0x9B, CHR 0xBE, CHR 0xE3, CHR 0x80, CHR 0x82]"

definition S_HEAD :: string where \<comment> \<open>Design a professional PPT slide page.\<close>
  "S_HEAD =
     [CHR 0xE8, CHR 0xAE, CHR 0xBE, CHR 0xE8, CHR 0xAE, CHR 0xA1, CHR 0xE4, CHR 0xB8, CHR 0x80,
     CHR 0xE5, CHR 0xBC, CHR 0xA0, CHR 0xE4, CHR 0xB8, CHR 0x93, CHR 0xE4, CHR 0xB8, CHR 0x9A,
     CHR 0xE7, CHR 0x9A, CHR 0x84] @ ''PPT'' @ [CHR 0xE5, CHR 0xB9, CHR 0xBB, CHR 0xE7, CHR
     0x81, CHR 0xAF, CHR 0xE7, CHR 0x89, CHR 0x87, CHR 0xE9, CHR 0xA1, CHR 0xB5, CHR 0xE9, CHR
     0x9D, CHR 0xA2, CHR 0xE3, CHR 0x80, CHR 0x82, CHR 0x0A, CHR 0x0A]"

definition S_RULES :: string where \<comment> \<open>[Design rules]\<close>
  "S_RULES =
     [CHR 0xE3, CHR 0x80, CHR 0x90, CHR 0xE8, CHR 0xAE, CHR 0xBE, CHR 0xE8, CHR 0xAE, CHR 0xA1,
     CHR 0xE8, CHR 0xA7, CHR 0x84, CHR 0xE8, CHR 0x8C, CHR 0x83, CHR 0xE3, CHR 0x80, CHR 0x91,
     CHR 0x0A]"

definition S_STYLE :: string where \<comment> \<open>- Style: \<close>
  "S_STYLE =
     ''- '' @ [CHR 0xE9, CHR 0xA3, CHR 0x8E, CHR 0xE6, CHR 0xA0, CHR 0xBC, CHR 0xE6, CHR 0xB5,
     CHR 0x81, CHR 0xE6, CHR 0xB4, CHR 0xBE] @ '': ''"

definition S_COLOR :: string where \<comment> \<open>- Colour scheme: \<close>
  "S_COLOR =
     ''- '' @ [CHR 0xE9, CHR 0x85, CHR 0x8D, CHR 0xE8, CHR 0x89, CHR 0xB2, CHR 0xE6, CHR 0x96,
     CHR 0xB9, CHR 0xE6, CHR 0xA1, CHR 0x88] @ '': ''"

definition S_REQUIREMENTS :: string where \<comment> \<open>- Specific design requirements: \<close>
  "S_REQUIREMENTS =
     ''- '' @ [CHR 0xE5, CHR 0x85, CHR 0xB7, CHR 0xE4, CHR 0xBD, CHR 0x93, CHR 0xE8, CHR 0xAE,
     CHR 0xBE, CHR 0xE8, CHR 0xAE, CHR 0xA1, CHR 0xE8, CHR 0xA6, CHR 0x81, CHR 0xE6, CHR 0xB1,
     CHR 0x82] @ '': ''"

definition S_PAGE :: string where \<comment> \<open>[Content of this page]\<close>
  "S_PAGE =
     [CHR 0xE3, CHR 0x80, CHR 0x90, CHR 0xE6, CHR 0x9C, CHR 0xAC, CHR 0xE9, CHR 0xA1, CHR 0xB5,
     CHR 0xE5, CHR 0x86, CHR 0x85, CHR 0xE5, CHR 0xAE, CHR 0xB9, CHR 0xE3, CHR 0x80, CHR 0x91,
     CHR 0x0A]"

definition S_CONTENT :: string where \<comment> \<open>- Core content: \<close>
  "S_CONTENT =
     ''- '' @ [CHR 0xE6, CHR 0xA0, CHR 0xB8, CHR 0xE5, CHR 0xBF, CHR 0x83, CHR 0xE5, CHR 0x86,
     CHR 0x85, CHR 0xE5, CHR 0xAE, CHR 0xB9] @ '': ''"

definition S_REFERENCE :: string where \<comment> \<open>[Reference] Follow the style and layout of the supplied image.\<close>
  "S_REFERENCE =
     [CHR 0xE3, CHR 0x80, CHR 0x90, CHR 0xE5, CHR 0x8F, CHR 0x82, CHR 0xE8, CHR 0x80, CHR 0x83,
     CHR 0xE8, CHR 0xAF, CHR 0xB4, CHR 0xE6, CHR 0x98, CHR 0x8E, CHR 0xE3, CHR 0x80, CHR 0x91,
     CHR 0x0A, CHR 0xE8, CHR 0xAF, CHR 0xB7, CHR 0xE5, CHR 0x8F, CHR 0x82, CHR 0xE8, CHR 0x80,
     CHR 0x83, CHR 0xE6, CHR 0x8F, CHR 0x90, CHR 0xE4, CHR 0xBE, CHR 0x9B, CHR 0xE7, CHR 0x9A,
     CHR 0x84, CHR 0xE5, CHR 0x9B, CHR 0xBE, CHR 0xE7, CHR 0x89, CHR 0x87, CHR 0xE9, CHR 0xA3,
     CHR 0x8E, CHR 0xE6, CHR 0xA0, CHR 0xBC, CHR 0xE5, CHR 0x92, CHR 0x8C, CHR 0xE5, CHR 0xB8,
     CHR 0x83, CHR 0xE5, CHR 0xB1, CHR 0x80, CHR 0xE3, CHR 0x80, CHR 0x82, CHR 0x0A, CHR 0x0A]"

definition S_IMAGE :: string where \<comment> \<open>[Content optimisation] Redraw the supplied content image professionally, keeping the key information.\<close>
  "S_IMAGE =
     [CHR 0xE3, CHR 0x80, CHR 0x90, CHR 0xE5, CHR 0x86, CHR 0x85, CHR 0xE5, CHR 0xAE, CHR 0xB9,
     CHR 0xE4, CHR 0xBC, CHR 0x98, CHR 0xE5, CHR 0x8C, CHR 0x96, CHR 0xE8, CHR 0xAF, CHR 0xB4,
     CHR 0xE6, CHR 0x98, CHR 0x8E, CHR 0xE3, CHR 0x80, CHR 0x91, CHR 0x0A, CHR 0xE8, CHR 0xAF,
     CHR 0xB7, CHR 0xE5, CHR 0x9F, CHR 0xBA, CHR 0xE4, CHR 0xBA, CHR 0x8E, CHR 0xE6, CHR 0x8F,
     CHR 0x90, CHR 0xE4, CHR 0xBE, CHR 0x9B, CHR 0xE7, CHR 0x9A, CHR 0x84, CHR 0xE5, CHR 0x86,
     CHR 0x85, CHR 0xE5, CHR 0xAE, CHR 0xB9, CHR 0xE5, CHR 0x9B, CHR 0xBE, CHR 0xE7, CHR 0x89,
     CHR 0x87, CHR 0xE8, CHR 0xBF, CHR 0x9B, CHR 0xE8, CHR 0xA1, CHR 0x8C, CHR 0xE4, CHR 0xB8,
     CHR 0x93, CHR 0xE4, CHR 0xB8, CHR 0x9A, CHR 0xE5, CHR 0x8C, CHR 0x96, CHR 0xE9, CHR 0x87,
     CHR 0x8D, CHR 0xE7, CHR 0xBB, CHR 0x98, CHR 0xE5, CHR 0x92, CHR 0x8C, CHR 0xE6, CHR 0x8E,
     CHR 0x92, CHR 0xE7, CHR 0x89, CHR 0x88, CHR 0xE4, CHR 0xBC, CHR 0x98, CHR 0xE5, CHR 0x8C,
     CHR 0x96, CHR 0xEF, CHR 0xBC, CHR 0x8C, CHR 0xE4, CHR 0xBF, CHR 0x9D, CHR 0xE7, CHR 0x95,
     CHR 0x99, CHR 0xE5, CHR 0x85, CHR 0xB3, CHR 0xE9, CHR 0x94, CHR 0xAE, CHR 0xE4, CHR 0xBF,
     CHR 0xA1, CHR 0xE6, CHR 0x81, CHR 0xAF, CHR 0xE3, CHR 0x80, CHR 0x82, CHR 0x0A, CHR 0x0A]"

definition S_CLOSING :: string where \<comment> \<open>Follow the style and colours above strictly and output one slide design of high quality without garbled text.\<close>
  "S_CLOSING =
     [CHR 0xE8, CHR 0xAF, CHR 0xB7, CHR 0xE4, CHR 0xB8, CHR 0xA5, CHR 0xE6, CHR 0xA0, CHR 0xBC,
     CHR 0xE9, CHR 0x81, CHR 0xB5, CHR 0xE5, CHR 0xBE, CHR 0xAA, CHR 0xE4, CHR 0xB8, CHR 0x8A,
     CHR 0xE8, CHR 0xBF, CHR 0xB0, CHR 0xE9, CHR 0xA3, CHR 0x8E, CHR 0xE6, CHR 0xA0, CHR 0xBC,
     CHR 0xE4, CHR 0xB8, CHR 0x8E, CHR 0xE9, CHR 0x85, CHR 0x8D, CHR 0xE8, CHR 0x89, CHR 0xB2,
     CHR 0xEF, CHR 0xBC, CHR 0x8C, CHR 0xE8, CHR 0xBE, CHR 0x93, CHR 0xE5, CHR 0x87, CHR 0xBA,
     CHR 0xE4, CHR 0xB8, CHR 0x80, CHR 0xE5, CHR 0xBC, CHR 0xA0, CHR 0xE9, CHR 0xAB, CHR 0x98,
     CHR 0xE5, CHR 0x93, CHR 0x81, CHR 0xE8, CHR 0xB4, CHR 0xA8, CHR 0xE3, CHR 0x80, CHR 0x81,
     CHR 0xE6, CHR 0x97, CHR 0xA0, CHR 0xE4, CHR 0xB9, CHR 0xB1, CHR 0xE7, CHR 0xA0, CHR 0x81,
     CHR 0xE7, CHR 0x9A, CHR 0x84, CHR 0xE5, CHR 0xB9, CHR 0xBB, CHR 0xE7, CHR 0x81, CHR 0xAF,
     CHR 0xE7, CHR 0x89, CHR 0x87, CHR 0xE8, CHR 0xAE, CHR 0xBE, CHR 0xE8, CHR 0xAE, CHR 0xA1,
     CHR 0xE5, CHR 0x9B, CHR 0xBE, CHR 0xE3, CHR 0x80, CHR 0x82]"

definition V_HEAD :: string where \<comment> \<open>Professional PPT slide design, \<close>
  "V_HEAD =
     [CHR 0xE4, CHR 0xB8, CHR 0x93, CHR 0xE4, CHR 0xB8, CHR 0x9A] @ ''PPT'' @ [CHR 0xE5, CHR
     0xB9, CHR 0xBB, CHR 0xE7, CHR 0x81, CHR 0xAF, CHR 0xE7, CHR 0x89, CHR 0x87, CHR 0xE8, CHR
     0xAE, CHR 0xBE, CHR 0xE8, CHR 0xAE, CHR 0xA1, CHR 0xEF, CHR 0xBC, CHR 0x8C]"

definition V_STYLE :: string where \<comment> \<open> style, \<close>
  "V_STYLE =
     [CHR 0xE9, CHR 0xA3, CHR 0x8E, CHR 0xE6, CHR 0xA0, CHR 0xBC, CHR 0xEF, CHR 0xBC, CHR 0x8C]"

definition V_COLOR :: string where \<comment> \<open> colours, \<close>
  "V_COLOR =
     [CHR 0xE9, CHR 0x85, CHR 0x8D, CHR 0xE8, CHR 0x89, CHR 0xB2, CHR 0xEF, CHR 0xBC, CHR 0x8C]"

definition V_COMMA :: string where \<comment> \<open>a full-width comma\<close>
  "V_COMMA =
     [CHR 0xEF, CHR 0xBC, CHR 0x8C]"

definition V_CONTENT :: string where \<comment> \<open>content: \<close>
  "V_CONTENT =
     [CHR 0xE5, CHR 0x86, CHR 0x85, CHR 0xE5, CHR 0xAE, CHR 0xB9, CHR 0xEF, CHR 0xBC, CHR 0x9A]"

definition V_CLOSING :: string where \<comment> \<open>, high quality, professional slide, high definition, no text, no watermark\<close>
  "V_CLOSING =
     [CHR 0xEF, CHR 0xBC, CHR 0x8C, CHR 0xE9, CHR 0xAB, CHR 0x98, CHR 0xE5, CHR 0x93, CHR 0x81,
     CHR 0xE8, CHR 0xB4, CHR 0xA8, CHR 0xEF, CHR 0xBC, CHR 0x8C, CHR 0xE4, CHR 0xB8, CHR 0x93,
     CHR 0xE4, CHR 0xB8, CHR 0x9A, CHR 0xE5, CHR 0xB9, CHR 0xBB, CHR 0xE7, CHR 0x81, CHR 0xAF,
     CHR 0xE7, CHR 0x89, CHR 0x87, CHR 0xEF, CHR 0xBC, CHR 0x8C, CHR 0xE9, CHR 0xAB, CHR 0x98,
     CHR 0xE6, CHR 0xB8, CHR 0x85, CHR 0xEF, CHR 0xBC, CHR 0x8C, CHR 0xE6, CHR 0x97, CHR 0xA0,
     CHR 0xE6, CHR 0x96, CHR 0x87, CHR 0xE5, CHR 0xAD, CHR 0x97, CHR 0xEF, CHR 0xBC, CHR 0x8C,
     CHR 0xE6, CHR 0x97, CHR 0xA0, CHR 0xE6, CHR 0xB0, CHR 0xB4, CHR 0xE5, CHR 0x8D, CHR 0xB0]"

section \<open>Dimension resolution\<close>

subsection \<open>\<open>VolcengineGenerator.calculateSize\<close>\<close>

definition RESOLUTION_BASE_SIZE :: "VolcengineResolution \<Rightarrow> int \<times> int" where
  "RESOLUTION_BASE_SIZE r = (case r of K2 \<Rightarrow> (2048, 2048) | K4 \<Rightarrow> (4096, 4096))"

definition MAX_PIXELS :: int where "MAX_PIXELS = 16777216"

definition MIN_PIXELS :: int where "MIN_PIXELS = 921600"

text \<open>
  The target ratio, \<open>None\<close> when it is not a finite number. The custom branch keeps
  the initial 1 unless the string has exactly two parts that \<open>parseInt\<close> reads as
  positive numbers; the table branch divides what \<open>parseInt\<close> reads without a check.
\<close>

definition targetRatio :: "AspectRatio \<Rightarrow> string option \<Rightarrow> real option" where
  "targetRatio aspect customRatio =
     (let ratioConfig = find (\<lambda>r. fst r = aspect) VOLCENGINE_ASPECT_RATIOS in
      if aspect = CUSTOM \<and> truthy customRatio then
        (let parts = str_split CHR '':'' (the customRatio) in
         if length parts = 2 then
           (case (parseInt (parts ! 0), parseInt (parts ! 1)) of
              (Some w, Some h) \<Rightarrow> if w > 0 \<and> h > 0 then Some (real_of_int w / real_of_int h) else Some 1
            | _ \<Rightarrow> Some 1)
         else Some 1)
      else
        (case ratioConfig of
           None \<Rightarrow> Some 1
         | Some (val, label, sz) \<Rightarrow>
             (let parts = str_split CHR ''x'' sz in
              if length parts = 2 then
                (case (parseInt (parts ! 0), parseInt (parts ! 1)) of
                   (Some w, Some h) \<Rightarrow> if h = 0 then None else Some (real_of_int w / real_of_int h)
                 | _ \<Rightarrow> None)
              else Some 1)))"

text \<open>
  The closing loop of \<open>calculateSize\<close>, on the rounded dimensions: while the area is over
  the maximum and both sides are over 32, the longer side loses 32.
\<close>

function shrink :: "int \<Rightarrow> int \<Rightarrow> int \<times> int" where
  "shrink width height =
     (if width * height > MAX_PIXELS \<and> width > 32 \<and> height > 32
      then (if width \<ge> height then shrink (width - 32) height else shrink width (height - 32))
      else (width, height))"
  by pat_completeness auto
termination
  by (relation "measure (\<lambda>(w, h). nat (w + h))") auto

declare shrink.simps [simp del]

text \<open>
  The width and height that \<open>calculateSize\<close> prints as \<open>WxH\<close>; \<open>None\<close> when the
  ratio is not a number (the source then prints \<open>NaN\<close> for a side). No entry of the
  table has such a ratio.
\<close>

definition calculateSize_dims ::
  "VolcengineResolution \<Rightarrow> AspectRatio \<Rightarrow> string option \<Rightarrow> (int \<times> int) option" where
  "calculateSize_dims resolution aspect customRatio =
     (let base = RESOLUTION_BASE_SIZE resolution;
          basePixels0 = fst base * snd base;
          basePixels = (if basePixels0 > MAX_PIXELS then MAX_PIXELS else basePixels0)
      in case targetRatio aspect customRatio of
           None \<Rightarrow> None
         | Some ratio \<Rightarrow>
             (let height0 = sqrt (real_of_int basePixels / ratio);
                  width0 = height0 * ratio;
                  currentPixels = width0 * height0;
                  (width1, height1) =
                    (if currentPixels > real_of_int MAX_PIXELS
                     then (let scale = sqrt (real_of_int MAX_PIXELS / currentPixels)
                           in (width0 * scale, height0 * scale))
                     else (width0, height0));
                  (width2, height2) =
                    (if width1 * height1 < real_of_int MIN_PIXELS
                     then (let scale = sqrt (real_of_int MIN_PIXELS / (width1 * height1))
                           in (width1 * scale, height1 * scale))
                     else (width1, height1));
                  width3 = Math_round (width2 / 32) * 32;
                  height3 = Math_round (height2 / 32) * 32
              in Some (shrink width3 height3)))"

definition calculateSize :: "VolcengineResolution \<Rightarrow> AspectRatio \<Rightarrow> string option \<Rightarrow> string" where
  "calculateSize resolution aspect customRatio =
     (case calculateSize_dims resolution aspect customRatio of
        None \<Rightarrow> ''NaNxNaN''
      | Some (width, height) \<Rightarrow> show_int width @ ''x'' @ show_int height)"

subsection \<open>\<open>StabilityGenerator.getDimensionsFromAspectRatio\<close>\<close>

definition ratioMap :: "AspectRatio \<Rightarrow> (int \<times> int) option" where
  "ratioMap a =
     (case a of
        SQUARE \<Rightarrow> Some (1024, 1024)
      | PORTRAIT \<Rightarrow> Some (1024, 1365)
      | VERTICAL \<Rightarrow> Some (1024, 1792)
      | LANDSCAPE \<Rightarrow> Some (1365, 1024)
      | WIDESCREEN \<Rightarrow> Some (1920, 1080)
      | ULTRAWIDE \<Rightarrow> Some (2560, 1080)
      | ULTRATALL \<Rightarrow> Some (1080, 2560)
      | CUSTOM \<Rightarrow> None)"

definition getDimensionsFromAspectRatio :: "AspectRatio \<Rightarrow> string option \<Rightarrow> int \<times> int" where
  "getDimensionsFromAspectRatio aspect custom =
     (let baseWidth = 1920; baseHeight = 1080;
          predefined = (case ratioMap aspect of None \<Rightarrow> (baseWidth, baseHeight) | Some d \<Rightarrow> d)
      in if aspect = CUSTOM \<and> truthy custom then
           (let parts = str_split CHR '':'' (the custom) in
            if length parts = 2 then
              (case (parseInt (parts ! 0), parseInt (parts ! 1)) of
                 (Some w, Some h) \<Rightarrow>
                   if w > 0 \<and> h > 0 then
                     (if w > h
                      then (baseWidth, Math_round (real_of_int (baseWidth * h) / real_of_int w))
                      else (Math_round (real_of_int (baseHeight * w) / real_of_int h), baseHeight))
                   else predefined
               | _ \<Rightarrow> predefined)
            else predefined)
         else predefined)"

subsection \<open>\<open>DalleGenerator.getSizeFromSettings\<close>\<close>

definition sizeMap :: "string \<Rightarrow> string option" where
  "sizeMap k =
     (if k = ''1:1'' then Some ''1024x1024''
      else if k = ''3:4'' then Some ''1024x1792''
      else if k = ''4:3'' then Some ''1792x1024''
      else if k = ''9:16'' then Some ''1024x1792''
      else if k = ''16:9'' then Some ''1792x1024''
      else if k = ''18:8'' then Some ''1792x1024''
      else if k = ''8:18'' then Some ''1024x1792''
      else None)"

definition getSizeFromSettings :: "GenerationSettings \<Rightarrow> string" where
  "getSizeFromSettings settings =
     (let aspectRatio0 = AspectRatio_val (aspectRatio settings);
          aspectRatio1 = (if aspectRatio settings = CUSTOM \<and> truthy (customAspectRatio settings)
                          then ''16:9'' else aspectRatio0)
      in case sizeMap aspectRatio1 of None \<Rightarrow> ''1792x1024'' | Some s \<Rightarrow> s)"

subsection \<open>The test on a custom ratio\<close>

text \<open>
  The test that \<open>calculateSize\<close> and \<open>getDimensionsFromAspectRatio\<close> both apply to the
  custom string before they use it: the string is not empty, \<open>:\<close> splits it in exactly
  two parts, and \<open>parseInt\<close> reads a positive number from each.
\<close>

definition parses_as_ratio :: "string option \<Rightarrow> bool" where
  "parses_as_ratio custom =
     (truthy custom \<and>
      (let parts = str_split CHR '':'' (the custom) in
       length parts = 2 \<and>
       (case (parseInt (parts ! 0), parseInt (parts ! 1)) of
          (Some w, Some h) \<Rightarrow> w > 0 \<and> h > 0
        | _ \<Rightarrow> False)))"

section \<open>The retry loops of the adapters\<close>

text \<open>
  The network is a parameter: the reply to the request of a given attempt is either a
  thrown value or what the call resolves to. Every \<open>generateImage\<close> returns its outcome
  (\<open>Inl\<close> what it throws, \<open>None\<close> if it throws \<open>undefined\<close>; \<open>Inr\<close> the image) together
  with the requests it sent and the timers it awaited, in order.
\<close>

definition retries :: nat where "retries = 3"

subsection \<open>\<open>GeminiGenerator\<close>\<close>

datatype part = InlineData (mimeType: string) (data: string) | TextPart string

record GeminiRequest =
  client_apiKey :: "string option"
  g_model :: ModelType
  g_parts :: "part list"
  g_aspectRatio :: string
  g_imageSize :: "ImageSize option"

definition getMimeType :: "string \<Rightarrow> string" where
  "getMimeType base64 =
     (if startsWith base64 ''/9j/'' then ''image/jpeg''
      else if startsWith base64 ''iVBORw0KGgo'' then ''image/png''
      else if startsWith base64 ''R0lGOD'' then ''image/gif''
      else if startsWith base64 ''UklGR'' then ''image/webp''
      else ''image/png'')"

text \<open>
  The request \<open>generateImage\<close> builds before its loop. The client comes from \<open>getClient\<close>,
  which reads \<open>process.env.API_KEY\<close>; the class has no field and no constructor.
\<close>

definition gemini_request ::
  "Env \<Rightarrow> GenerationSettings \<Rightarrow> string \<Rightarrow> string option \<Rightarrow> GeminiRequest" where
  "gemini_request env settings slideContent slideImage =
     (let parts1 = (if truthy (referenceImage settings)
                    then [InlineData (getMimeType (the (referenceImage settings))) (the (referenceImage settings))]
                    else []);
          parts2 = (if truthy slideImage
                    then parts1 @ [InlineData (getMimeType (the slideImage)) (the slideImage)]
                    else parts1);
          fullPrompt0 =
            G_HEAD @ or_else (pptStyle settings) DEFAULT_STYLE
            @ G_COLOR @ or_else (colorScheme settings) DEFAULT_COLOR
            @ G_REQUIREMENTS @ or_else (designRequirements settings) DEFAULT_REQUIREMENTS
            @ G_CONTENT @ or_else slideContent DEFAULT_CONTENT;
          fullPrompt1 = (if truthy (referenceImage settings) then fullPrompt0 @ G_REFERENCE else fullPrompt0);
          fullPrompt2 = (if truthy slideImage then fullPrompt1 @ G_IMAGE else fullPrompt1);
          fullPrompt = fullPrompt2 @ G_CLOSING;
          finalAspectRatio =
            (if aspectRatio settings = CUSTOM \<and> truthy (customAspectRatio settings)
             then the (customAspectRatio settings)
             else AspectRatio_val (aspectRatio settings))
      in \<lparr>client_apiKey = API_KEY env,
          g_model = model settings,
          g_parts = parts2 @ [TextPart fullPrompt],
          g_aspectRatio = finalAspectRatio,
          g_imageSize = (if model settings = PRO then Some (imageSize settings) else None)\<rparr>)"

text \<open>The body of the \<open>try\<close> block, given what \<open>generateContent\<close> did.\<close>

definition gemini_try :: "thrown + part list \<Rightarrow> thrown + string" where
  "gemini_try reply =
     (case reply of
        Inl e \<Rightarrow> Inl e
      | Inr parts \<Rightarrow>
          (case find (\<lambda>p. case p of InlineData m d \<Rightarrow> True | TextPart t \<Rightarrow> False) parts of
             Some p \<Rightarrow> Inr (data p)
           | None \<Rightarrow> Inl (Error ''No image generated in response.'')))"

definition gemini_isRetryable :: "thrown \<Rightarrow> bool" where
  "gemini_isRetryable e =
     (let status = (if jsval_truthy (e_status e) then e_status e else e_code e);
          msg = (if e_message e \<noteq> [] then e_message e else e_json e);
          isOverloaded = (status = Num 503 \<or> str_includes msg ''overloaded'' \<or> str_includes msg ''UNAVAILABLE'');
          isInternal = (status = Num 500 \<or> str_includes msg ''Internal Server Error'')
      in isOverloaded \<or> isInternal)"

function gemini_attempts ::
  "(nat \<Rightarrow> GeminiRequest \<Rightarrow> thrown + part list) \<Rightarrow> GeminiRequest \<Rightarrow> nat \<Rightarrow> thrown option
   \<Rightarrow> (thrown option + string) \<times> GeminiRequest event list" where
  "gemini_attempts call req attempt lastError =
     (if attempt < retries then
        (case gemini_try (call attempt req) of
           Inr img \<Rightarrow> (Inr img, [Invoke req])
         | Inl e \<Rightarrow>
             (if attempt < retries - 1 \<and> gemini_isRetryable e
              then (let delay = 2 ^ (attempt + 1) * 1000;
                        rest = gemini_attempts call req (attempt + 1) (Some e)
                    in (fst rest, Invoke req # Sleep delay # snd rest))
              else (Inl (Some e), [Invoke req])))
      else (Inl lastError, []))"
  by pat_completeness auto
termination
  by (relation "measure (\<lambda>(call, req, attempt, lastError). retries - attempt)") auto

declare gemini_attempts.simps [simp del]

definition gemini_generateImage ::
  "Env \<Rightarrow> (nat \<Rightarrow> GeminiRequest \<Rightarrow> thrown + part list) \<Rightarrow> GenerationSettings \<Rightarrow> string
   \<Rightarrow> string option \<Rightarrow> (thrown option + string) \<times> GeminiRequest event list" where
  "gemini_generateImage env call settings slideContent slideImage =
     gemini_attempts call (gemini_request env settings slideContent slideImage) 0 None"

subsection \<open>\<open>StabilityGenerator\<close> and \<open>DalleGenerator\<close>\<close>

text \<open>
  Both build one prompt with the same text and run the same loop. Their \<open>try\<close> block
  is taken whole: the parameter says what it throws or returns for the request.
\<close>

definition fetch_prompt :: "GenerationSettings \<Rightarrow> string \<Rightarrow> string option \<Rightarrow> string" where
  "fetch_prompt settings slideContent slideImage =
     (let p0 = S_HEAD @ S_RULES
               @ S_STYLE @ or_else (pptStyle settings) DEFAULT_STYLE @ [CHR 0x0A]
               @ S_COLOR @ or_else (colorScheme settings) DEFAULT_COLOR @ [CHR 0x0A]
               @ S_REQUIREMENTS @ or_else (designRequirements settings) DEFAULT_REQUIREMENTS @ [CHR 0x0A, CHR 0x0A]
               @ S_PAGE
               @ S_CONTENT @ or_else slideContent DEFAULT_CONTENT @ [CHR 0x0A, CHR 0x0A];
          p1 = (if truthy (referenceImage settings) then p0 @ S_REFERENCE else p0);
          p2 = (if truthy slideImage then p1 @ S_IMAGE else p1)
      in p2 @ S_CLOSING)"

definition fetch_isRetryable :: "thrown \<Rightarrow> bool" where
  "fetch_isRetryable e =
     (str_includes (e_message e) ''rate limit'' \<or> str_includes (e_message e) ''overloaded''
      \<or> str_includes (e_message e) ''503'' \<or> str_includes (e_message e) ''500'')"

function fetch_attempts ::
  "(nat \<Rightarrow> 'r \<Rightarrow> thrown + string) \<Rightarrow> 'r \<Rightarrow> nat \<Rightarrow> thrown option
   \<Rightarrow> (thrown option + string) \<times> 'r event list" where
  "fetch_attempts call req attempt lastError =
     (if attempt < retries then
        (case call attempt req of
           Inr base64 \<Rightarrow> (Inr base64, [Invoke req])
         | Inl e \<Rightarrow>
             (if attempt < retries - 1 \<and> fetch_isRetryable e
              then (let delay = 2 ^ (attempt + 1) * 1000;
                        rest = fetch_attempts call req (attempt + 1) (Some e)
                    in (fst rest, Invoke req # Sleep delay # snd rest))
              else (Inl (Some e), [Invoke req])))
      else (Inl lastError, []))"
  by pat_completeness auto
termination
  by (relation "measure (\<lambda>(call, req, attempt, lastError). retries - attempt)") auto

declare fetch_attempts.simps [simp del]

record StabilityRequest =
  s_authorization :: string
  s_prompt :: string
  s_width :: int
  s_height :: int

definition stability_generateImage ::
  "string \<Rightarrow> (nat \<Rightarrow> StabilityRequest \<Rightarrow> thrown + string) \<Rightarrow> GenerationSettings \<Rightarrow> string
   \<Rightarrow> string option \<Rightarrow> (thrown option + string) \<times> StabilityRequest event list" where
  "stability_generateImage apiKey call settings slideContent slideImage =
     (if apiKey = [] then (Inl (Some (Error ''Stability AI API key is not set'')), [])
      else
        (let dimensions = getDimensionsFromAspectRatio (aspectRatio settings) (customAspectRatio settings);
             req = \<lparr>s_authorization = ''Bearer '' @ apiKey,
                    s_prompt = fetch_prompt settings slideContent slideImage,
                    s_width = fst dimensions,
                    s_height = snd dimensions\<rparr>
         in fetch_attempts call req 0 None))"

record DalleRequest =
  d_authorization :: string
  d_prompt :: string
  d_size :: string

definition dalle_generateImage ::
  "string \<Rightarrow> (nat \<Rightarrow> DalleRequest \<Rightarrow> thrown + string) \<Rightarrow> GenerationSettings \<Rightarrow> string
   \<Rightarrow> string option \<Rightarrow> (thrown option + string) \<times> DalleRequest event list" where
  "dalle_generateImage apiKey call settings slideContent slideImage =
     (if apiKey = [] then (Inl (Some (Error ''OpenAI API key is not set'')), [])
      else
        (let req = \<lparr>d_authorization = ''Bearer '' @ apiKey,
                    d_prompt = fetch_prompt settings slideContent slideImage,
                    d_size = getSizeFromSettings settings\<rparr>
         in fetch_attempts call req 0 None))"

subsection \<open>\<open>VolcengineGenerator\<close>\<close>

record VolcengineRequest =
  v_url :: string
  v_authorization :: string
  v_model :: string
  v_prompt :: string
  v_size :: string
  v_image :: "string option"

definition PROXY_BASE :: string where "PROXY_BASE = ''/volcengine-api''"

definition getModelName :: "VolcengineModel \<Rightarrow> string" where
  "getModelName m =
     (case m of
        SEEDDREAM_4_0 \<Rightarrow> ''doubao-seedream-4-0-251128''
      | SEEDDREAM_4_5 \<Rightarrow> ''doubao-seedream-4-5-251128'')"

text \<open>
  \<open>generateImage\<close> of this adapter has no loop: the \<open>try\<close> block runs once, and the
  \<open>catch\<close> clause replaces the error of a failed \<open>fetch\<close> by one with a longer message
  and throws every other error again.
\<close>

definition volcengine_generateImage ::
  "string option \<Rightarrow> string \<Rightarrow> (VolcengineRequest \<Rightarrow> thrown + string) \<Rightarrow> GenerationSettings
   \<Rightarrow> string \<Rightarrow> string option \<Rightarrow> (thrown + string) \<times> VolcengineRequest event list" where
  "volcengine_generateImage apiKey baseUrl call settings slideContent slideImage =
     (if \<not> truthy apiKey then (Inl (Error MSG_VOLCENGINE_KEY_UNSET), [])
      else
        (let prompt = V_HEAD @ or_else (pptStyle settings) DEFAULT_STYLE @ V_STYLE
                      @ or_else (colorScheme settings) DEFAULT_COLOR @ V_COLOR
                      @ or_else (designRequirements settings) DEFAULT_REQUIREMENTS @ V_COMMA
                      @ V_CONTENT @ or_else slideContent VOLCENGINE_DEFAULT_CONTENT
                      @ V_CLOSING;
             req = \<lparr>v_url = baseUrl @ ''/images/generations'',
                    v_authorization = ''Bearer '' @ the apiKey,
                    v_model = getModelName (volcengineModel settings),
                    v_prompt = prompt,
                    v_size = calculateSize (volcengineResolution settings) (aspectRatio settings)
                               (customAspectRatio settings),
                    v_image = (if truthy slideImage then Some (''data:image/png;base64,'' @ the slideImage)
                               else None)\<rparr>
         in case call req of
              Inr base64 \<Rightarrow> (Inr base64, [Invoke req])
            | Inl e \<Rightarrow>
                (if e_name e = ''TypeError'' \<and> e_message e = ''Failed to fetch''
                 then (Inl (Error MSG_NETWORK), [Invoke req])
                 else (Inl e, [Invoke req]))))"

section \<open>\<open>generateVariations\<close>\<close>

text \<open>
  \<open>generateImage i\<close> is what the \<open>i\<close>-th call of the adapter's \<open>generateImage\<close> does:
  its outcome and its events. Each \<open>generateVariations\<close> returns its own outcome and,
  for every call it made, the timer it awaited first followed by the events of the call.
\<close>

subsection \<open>\<open>Promise.all\<close>\<close>

text \<open>
  \<open>Promise.all\<close> fulfils with all values, in the order of the promises, when every
  promise fulfils; otherwise it rejects with the reason of the promise that rejected
  first in time. \<open>settled i\<close> is the time at which promise \<open>i\<close> settles; among promises
  that reject at the same time the lower index settles first.
\<close>

fun earliest :: "(nat \<Rightarrow> nat) \<Rightarrow> nat \<Rightarrow> nat list \<Rightarrow> nat" where
  "earliest settled best [] = best"
| "earliest settled best (i # is) = earliest settled (if settled i < settled best then i else best) is"

definition Promise_all :: "(nat \<Rightarrow> nat) \<Rightarrow> ('e + 'a) list \<Rightarrow> 'e + 'a list" where
  "Promise_all settled ps =
     (case filter (\<lambda>i. isl (ps ! i)) [0..<length ps] of
        [] \<Rightarrow> Inr (map projr ps)
      | i # is \<Rightarrow> Inl (projl (ps ! earliest settled i is)))"

subsection \<open>Gemini, Stability and DALL-E: all calls at once\<close>

definition staggered_generateVariations ::
  "nat \<Rightarrow> (nat \<Rightarrow> ('e + string) \<times> 'r event list) \<Rightarrow> (nat \<Rightarrow> nat) \<Rightarrow> nat
   \<Rightarrow> ('e + string list) \<times> 'r event list list" where
  "staggered_generateVariations stagger generateImage settled count =
     (let promises = map (\<lambda>i. generateImage i) [0..<count]
      in (Promise_all settled (map fst promises),
          map (\<lambda>i. Sleep (i * stagger) # snd (generateImage i)) [0..<count]))"

definition gemini_generateVariations ::
  "(nat \<Rightarrow> ('e + string) \<times> 'r event list) \<Rightarrow> (nat \<Rightarrow> nat) \<Rightarrow> nat
   \<Rightarrow> ('e + string list) \<times> 'r event list list" where
  "gemini_generateVariations = staggered_generateVariations 500"

definition stability_generateVariations ::
  "(nat \<Rightarrow> ('e + string) \<times> 'r event list) \<Rightarrow> (nat \<Rightarrow> nat) \<Rightarrow> nat
   \<Rightarrow> ('e + string list) \<times> 'r event list list" where
  "stability_generateVariations = staggered_generateVariations 1000"

definition dalle_generateVariations ::
  "(nat \<Rightarrow> ('e + string) \<times> 'r event list) \<Rightarrow> (nat \<Rightarrow> nat) \<Rightarrow> nat
   \<Rightarrow> ('e + string list) \<times> 'r event list list" where
  "dalle_generateVariations = staggered_generateVariations 1000"

subsection \<open>Volcengine: one call after the other\<close>

function volcengine_loop ::
  "(nat \<Rightarrow> (thrown + string) \<times> 'r event list) \<Rightarrow> nat \<Rightarrow> nat \<Rightarrow> string list \<Rightarrow> string list
   \<Rightarrow> 'r event list list \<Rightarrow> string list \<times> string list \<times> 'r event list list" where
  "volcengine_loop generateImage count i results errors trace =
     (if i < count then
        (let wait = (if i > 0 then [Sleep 500] else []);
             evs = wait @ snd (generateImage i)
         in case fst (generateImage i) of
              Inr result \<Rightarrow>
                volcengine_loop generateImage count (i + 1) (results @ [result]) errors (trace @ [evs])
            | Inl e \<Rightarrow>
                volcengine_loop generateImage count (i + 1) results (errors @ [e_message e]) (trace @ [evs]))
      else (results, errors, trace))"
  by pat_completeness auto
termination
  by (relation "measure (\<lambda>(generateImage, count, i, results, errors, trace). count - i)") auto

declare volcengine_loop.simps [simp del]

definition volcengine_generateVariations ::
  "(nat \<Rightarrow> (thrown + string) \<times> 'r event list) \<Rightarrow> nat \<Rightarrow> (thrown + string list) \<times> 'r event list list" where
  "volcengine_generateVariations generateImage count =
     (case volcengine_loop generateImage count 0 [] [] [] of
        (results, errors, trace) \<Rightarrow>
          (if results = [] then
             (case errors of
                first # others \<Rightarrow> (Inl (Error first), trace)
              | [] \<Rightarrow> (Inl (Error MSG_GENERATION_FAILED), trace))
           else (Inr results, trace)))"

section \<open>\<open>ImageGeneratorFactory\<close>\<close>

text \<open>
  An adapter object is its class and its fields. \<open>GeminiGenerator\<close> has none:
  the class declares no constructor, so an argument given to \<open>new\<close> is dropped.
\<close>

datatype ImageGenerator =
  GeminiGenerator
| VolcengineGenerator "string option" string
| DalleGenerator string
| StabilityGenerator string

definition new_GeminiGenerator :: "string option \<Rightarrow> ImageGenerator" where
  "new_GeminiGenerator argument = GeminiGenerator"

record VolcengineCredentials =
  accessKey :: string
  secretKey :: "string option"
  endpoint :: "string option"

definition new_VolcengineGenerator :: "VolcengineCredentials \<Rightarrow> ImageGenerator" where
  "new_VolcengineGenerator credentials = VolcengineGenerator (secretKey credentials) PROXY_BASE"

definition new_DalleGenerator :: "Env \<Rightarrow> ImageGenerator" where
  "new_DalleGenerator env = DalleGenerator (case OPENAI_API_KEY env of None \<Rightarrow> [] | Some k \<Rightarrow> k)"

definition new_StabilityGenerator :: "Env \<Rightarrow> ImageGenerator" where
  "new_StabilityGenerator env = StabilityGenerator (case STABILITY_API_KEY env of None \<Rightarrow> [] | Some k \<Rightarrow> k)"

text \<open>\<open>createGenerator(type, apiKeys)\<close> of \<open>services/imageGeneratorFactory.ts\<close>.\<close>

definition createGenerator :: "GeneratorType \<Rightarrow> ApiKeys \<Rightarrow> thrown + ImageGenerator" where
  "createGenerator type apiKeys =
     (if type = GEMINI then
        (if \<not> truthy (geminiApiKey apiKeys) then Inl (Error MSG_GEMINI_KEY)
         else Inr (new_GeminiGenerator (geminiApiKey apiKeys)))
      else if type = VOLCENGINE then
        (if \<not> truthy (volcengineSecretKey apiKeys) then Inl (Error MSG_VOLCENGINE_KEY)
         else Inr (new_VolcengineGenerator
                     \<lparr>accessKey = [], secretKey = volcengineSecretKey apiKeys,
                      endpoint = volcengineEndpoint apiKeys\<rparr>))
      else
        (if \<not> truthy (geminiApiKey apiKeys) then Inl (Error MSG_GEMINI_KEY)
         else Inr (new_GeminiGenerator (geminiApiKey apiKeys))))"

text \<open>
  The earlier \<open>createGenerator(type)\<close>, for the providers \<open>gemini\<close>, \<open>dalle\<close> and
  \<open>stability\<close>: it takes no keys and throws nothing; the adapters read the environment.
\<close>

definition createGenerator_env :: "Env \<Rightarrow> GeneratorType \<Rightarrow> ImageGenerator" where
  "createGenerator_env env type =
     (if type = GEMINI then new_GeminiGenerator None
      else if type = DALLE then new_DalleGenerator env
      else if type = STABILITY then new_StabilityGenerator env
      else new_GeminiGenerator None)"

subsection \<open>The methods of an adapter object\<close>

datatype request =
  GeminiReq GeminiRequest
| VolcengineReq VolcengineRequest
| DalleReq DalleRequest
| StabilityReq StabilityRequest

record Network =
  gemini_api :: "nat \<Rightarrow> GeminiRequest \<Rightarrow> thrown + part list"
  volcengine_api :: "VolcengineRequest \<Rightarrow> thrown + string"
  dalle_api :: "nat \<Rightarrow> DalleRequest \<Rightarrow> thrown + string"
  stability_api :: "nat \<Rightarrow> StabilityRequest \<Rightarrow> thrown + string"

definition tag :: "('a \<Rightarrow> request) \<Rightarrow> ('e + 'b) \<times> 'a event list \<Rightarrow> ('e + 'b) \<times> request event list" where
  "tag f r = (fst r, map (map_event f) (snd r))"

definition generateImage ::
  "ImageGenerator \<Rightarrow> Env \<Rightarrow> Network \<Rightarrow> GenerationSettings \<Rightarrow> string \<Rightarrow> string option
   \<Rightarrow> (thrown option + string) \<times> request event list" where
  "generateImage generator env net settings slideContent slideImage =
     (case generator of
        GeminiGenerator \<Rightarrow>
          tag GeminiReq (gemini_generateImage env (gemini_api net) settings slideContent slideImage)
      | VolcengineGenerator apiKey baseUrl \<Rightarrow>
          (case tag VolcengineReq
                  (volcengine_generateImage apiKey baseUrl (volcengine_api net) settings slideContent slideImage) of
             (Inl e, evs) \<Rightarrow> (Inl (Some e), evs)
           | (Inr img, evs) \<Rightarrow> (Inr img, evs))
      | DalleGenerator apiKey \<Rightarrow>
          tag DalleReq (dalle_generateImage apiKey (dalle_api net) settings slideContent slideImage)
      | StabilityGenerator apiKey \<Rightarrow>
          tag StabilityReq (stability_generateImage apiKey (stability_api net) settings slideContent slideImage))"

definition generateVariations ::
  "ImageGenerator \<Rightarrow> Env \<Rightarrow> (nat \<Rightarrow> Network) \<Rightarrow> (nat \<Rightarrow> nat) \<Rightarrow> GenerationSettings \<Rightarrow> string
   \<Rightarrow> string option \<Rightarrow> nat \<Rightarrow> (thrown option + string list) \<times> request event list list" where
  "generateVariations generator env net settled settings slideContent slideImage count =
     (case generator of
        GeminiGenerator \<Rightarrow>
          gemini_generateVariations
            (\<lambda>i. generateImage generator env (net i) settings slideContent slideImage) settled count
      | VolcengineGenerator apiKey baseUrl \<Rightarrow>
          (case volcengine_generateVariations
                  (\<lambda>i. tag VolcengineReq
                         (volcengine_generateImage apiKey baseUrl (volcengine_api (net i)) settings
                            slideContent slideImage))
                  count of
             (Inl e, trace) \<Rightarrow> (Inl (Some e), trace)
           | (Inr images, trace) \<Rightarrow> (Inr images, trace))
      | DalleGenerator apiKey \<Rightarrow>
          dalle_generateVariations
            (\<lambda>i. generateImage generator env (net i) settings slideContent slideImage) settled count
      | StabilityGenerator apiKey \<Rightarrow>
          stability_generateVariations
            (\<lambda>i. generateImage generator env (net i) settings slideContent slideImage) settled count)"

section \<open>The batch run of the application\<close>

text \<open>
  \<open>updateSlide(id, updates)\<close> takes a partial slide: a field that is absent stays as it is
  (\<open>None\<close>), a field that is present is overwritten, \<open>errorMessage\<close> possibly with
  \<open>undefined\<close> (\<open>Some None\<close>).
\<close>

record SlideUpdates =
  u_status :: "SlideStatus option"
  u_errorMessage :: "string option option"
  u_generatedImages :: "string list option"

definition merge_updates :: "SlideUpdates \<Rightarrow> SlideData \<Rightarrow> SlideData" where
  "merge_updates u s =
     s\<lparr>status := (case u_status u of None \<Rightarrow> status s | Some v \<Rightarrow> v),
       errorMessage := (case u_errorMessage u of None \<Rightarrow> errorMessage s | Some v \<Rightarrow> v),
       generatedImages := (case u_generatedImages u of None \<Rightarrow> generatedImages s | Some v \<Rightarrow> v)\<rparr>"

definition updateSlide :: "string \<Rightarrow> SlideUpdates \<Rightarrow> SlideData list \<Rightarrow> SlideData list" where
  "updateSlide i updates prev = map (\<lambda>s. if slide_id s = i then merge_updates updates s else s) prev"

text \<open>
  What the application does, in order: a call of \<open>setIsBatchGenerating\<close>, a call of
  \<open>updateSlide\<close>, and one call of \<open>generateVariations\<close> with the requests and timers
  of its image calls.
\<close>

datatype app_event =
  SetIsBatchGenerating bool
| UpdateSlide string SlideUpdates
| Generate "request event list list"

text \<open>
  \<open>generateSlide(id)\<close>. \<open>slides\<close> is the list the handler closed over, \<open>cur\<close> the
  state that \<open>setSlides\<close> updates. The result says whether the promise rejected (the
  \<open>catch\<close> clause calls \<open>toString\<close> on the thrown value, which itself throws when
  the value is \<open>undefined\<close>), the new state and the events.
\<close>

definition generateSlide ::
  "Env \<Rightarrow> GenerationSettings \<Rightarrow> ApiKeys \<Rightarrow> (nat \<Rightarrow> Network) \<Rightarrow> (nat \<Rightarrow> nat) \<Rightarrow> SlideData list
   \<Rightarrow> string \<Rightarrow> SlideData list \<Rightarrow> bool \<times> SlideData list \<times> app_event list" where
  "generateSlide env settings apiKeys net settled slides i cur =
     (case find (\<lambda>s. slide_id s = i) slides of
        None \<Rightarrow> (False, cur, [])
      | Some slide \<Rightarrow>
          (let started = \<lparr>u_status = Some status_generating, u_errorMessage = Some None,
                          u_generatedImages = None\<rparr>;
               cur1 = updateSlide i started cur;
               attempt =
                 (case createGenerator (generatorType settings) apiKeys of
                    Inl e \<Rightarrow> (Inl (Some e), [])
                  | Inr generator \<Rightarrow>
                      (case generateVariations generator env net settled settings (contentPrompt slide)
                              (contentImage slide) (variantCount slide) of
                         (outcome, trace) \<Rightarrow> (outcome, [Generate trace])))
           in case fst attempt of
                Inr images \<Rightarrow>
                  (let finished = \<lparr>u_status = Some status_success, u_errorMessage = None,
                               u_generatedImages = Some images\<rparr>
                   in (False, updateSlide i finished cur1,
                       [UpdateSlide i started] @ snd attempt @ [UpdateSlide i finished]))
              | Inl None \<Rightarrow> (True, cur1, [UpdateSlide i started] @ snd attempt)
              | Inl (Some e) \<Rightarrow>
                  (let errorMsg = error_toString e;
                       failed =
                         (if str_includes errorMsg ''API key'' \<or> str_includes errorMsg ''Key''
                             \<or> str_includes errorMsg TXT_UNSET
                          then
                            (let detailMsg =
                                   (if truthy (volcengineSecretKey apiKeys)
                                    then TXT_KEY_FILLED
                                         @ show_nat (js_length (the (volcengineSecretKey apiKeys)))
                                         @ TXT_STILL_ERROR @ e_message e
                                    else MSG_VOLCENGINE_KEY)
                             in \<lparr>u_status = Some status_error, u_errorMessage = Some (Some detailMsg),
                                 u_generatedImages = None\<rparr>)
                          else \<lparr>u_status = Some status_error,
                                 u_errorMessage = Some (Some (or_else (e_message e) MSG_FAILED)),
                                 u_generatedImages = None\<rparr>)
                   in (False, updateSlide i failed cur1,
                       [UpdateSlide i started] @ snd attempt @ [UpdateSlide i failed]))))"



section \<open>Constants of the application and sample inputs\<close>

definition DEFAULT_SETTINGS :: GenerationSettings where
  "DEFAULT_SETTINGS =
     \<lparr>pptStyle = [], colorScheme = [], designRequirements = [], referenceImage = None,
      model = PRO, aspectRatio = WIDESCREEN, customAspectRatio = Some ''21:9'',
      imageSize = Size_1K, generatorType = GEMINI, volcengineModel = SEEDDREAM_4_5,
      volcengineResolution = K2\<rparr>"

definition DEFAULT_API_KEYS :: ApiKeys where
  "DEFAULT_API_KEYS =
     \<lparr>geminiApiKey = Some [], volcengineAccessKey = Some [], volcengineSecretKey = Some [],
      volcengineEndpoint = Some []\<rparr>"

text \<open>\<open>createEmptySlide\<close>, with the identifier that \<open>crypto.randomUUID()\<close> returns.\<close>

definition createEmptySlide :: "string \<Rightarrow> SlideData" where
  "createEmptySlide uuid =
     \<lparr>slide_id = uuid, contentPrompt = [], contentImage = None, generatedImages = [],
      variantCount = 2, status = status_idle, errorMessage = None\<rparr>"

text \<open>Sample surroundings for concrete runs: an environment and three kinds of network.\<close>

definition sample_env :: Env where
  "sample_env = \<lparr>API_KEY = Some ''env-key'', OPENAI_API_KEY = None, STABILITY_API_KEY = Some ''sk-stab''\<rparr>"

definition net_ok :: Network where
  "net_ok =
     \<lparr>gemini_api = (\<lambda>attempt req. Inr [TextPart ''ok'', InlineData ''image/png'' ''iVBORw0KGgoAAA'']),
      volcengine_api = (\<lambda>req. Inr ''iVBORw0KGgoBBB''),
      dalle_api = (\<lambda>attempt req. Inr ''iVBORw0KGgoCCC''),
      stability_api = (\<lambda>attempt req. Inr ''iVBORw0KGgoDDD'')\<rparr>"

definition net_failing :: "thrown \<Rightarrow> Network" where
  "net_failing e =
     \<lparr>gemini_api = (\<lambda>attempt req. Inl e),
      volcengine_api = (\<lambda>req. Inl e),
      dalle_api = (\<lambda>attempt req. Inl e),
      stability_api = (\<lambda>attempt req. Inl e)\<rparr>"

definition net_recovering :: "thrown \<Rightarrow> Network" where
  "net_recovering e =
     \<lparr>gemini_api = (\<lambda>attempt req. if attempt < 2 then Inl e else Inr [InlineData ''image/png'' ''iVBORw0KGgoAAA'']),
      volcengine_api = (\<lambda>req. Inl e),
      dalle_api = (\<lambda>attempt req. if attempt < 2 then Inl e else Inr ''iVBORw0KGgoCCC''),
      stability_api = (\<lambda>attempt req. if attempt < 2 then Inl e else Inr ''iVBORw0KGgoDDD'')\<rparr>"




section \<open>Reading the events of a call\<close>




section \<open>Reading the events of a batch\<close>



section \<open>Facts about the factory and the events of a call\<close>

lemma createGenerator_GEMINI:
  "k \<noteq> [] \<Longrightarrow> createGenerator GEMINI (apiKeys\<lparr>geminiApiKey := Some k\<rparr>) = Inr GeminiGenerator"
  by (simp add: createGenerator_def truthy_def new_GeminiGenerator_def)

lemma gemini_attempts_events:
  "ev \<in> set (snd (gemini_attempts call req attempt lastError))
   \<Longrightarrow> ev = Invoke req \<or> (\<exists>d. ev = Sleep d)"
proof (induction call req attempt lastError arbitrary: ev rule: gemini_attempts.induct)
  case (1 call req attempt lastError)
  from "1.prems" show ?case
    apply (subst (asm) gemini_attempts.simps)
    apply (auto split: if_splits sum.splits simp: Let_def dest: "1.IH")
    done
qed

lemma Invoke_map_event:
  "Invoke r \<in> set (map (map_event f) evs) \<Longrightarrow> \<exists>q. Invoke q \<in> set evs \<and> r = f q"
proof (induction evs)
  case Nil
  then show ?case by simp
next
  case (Cons ev evs)
  then show ?case by (cases ev) auto
qed

section \<open>The retry loops, unrolled\<close>

text \<open>With \<open>retries = 3\<close> each loop is a nest of three attempts.\<close>

lemma gemini_attempts_unrolled:
  "gemini_attempts call req 0 None =
     (case gemini_try (call 0 req) of
        Inr img \<Rightarrow> (Inr img, [Invoke req])
      | Inl e0 \<Rightarrow>
          if gemini_isRetryable e0 then
            (case gemini_try (call (Suc 0) req) of
               Inr img \<Rightarrow> (Inr img, [Invoke req, Sleep 2000, Invoke req])
             | Inl e1 \<Rightarrow>
                 if gemini_isRetryable e1 then
                   (case gemini_try (call (Suc (Suc 0)) req) of
                      Inr img \<Rightarrow> (Inr img, [Invoke req, Sleep 2000, Invoke req, Sleep 4000, Invoke req])
                    | Inl e2 \<Rightarrow> (Inl (Some e2), [Invoke req, Sleep 2000, Invoke req, Sleep 4000, Invoke req]))
                 else (Inl (Some e1), [Invoke req, Sleep 2000, Invoke req]))
          else (Inl (Some e0), [Invoke req]))"
  by (simp add: gemini_attempts.simps retries_def Let_def split: sum.splits)

lemma fetch_attempts_unrolled:
  "fetch_attempts call req 0 None =
     (case call 0 req of
        Inr img \<Rightarrow> (Inr img, [Invoke req])
      | Inl e0 \<Rightarrow>
          if fetch_isRetryable e0 then
            (case call (Suc 0) req of
               Inr img \<Rightarrow> (Inr img, [Invoke req, Sleep 2000, Invoke req])
             | Inl e1 \<Rightarrow>
                 if fetch_isRetryable e1 then
                   (case call (Suc (Suc 0)) req of
                      Inr img \<Rightarrow> (Inr img, [Invoke req, Sleep 2000, Invoke req, Sleep 4000, Invoke req])
                    | Inl e2 \<Rightarrow> (Inl (Some e2), [Invoke req, Sleep 2000, Invoke req, Sleep 4000, Invoke req]))
                 else (Inl (Some e1), [Invoke req, Sleep 2000, Invoke req]))
          else (Inl (Some e0), [Invoke req]))"
  by (simp add: fetch_attempts.simps retries_def Let_def split: sum.splits)







lemma volcengine_generateImage_no_key:
  "\<not> truthy apiKey \<Longrightarrow>
   volcengine_generateImage apiKey baseUrl call settings slideContent slideImage
     = (Inl (Error MSG_VOLCENGINE_KEY_UNSET), [])"
  by (simp add: volcengine_generateImage_def)









section \<open>\<open>Promise.all\<close> and the Volcengine loop\<close>

lemma earliest_least:
  "earliest settled b js \<in> set (b # js)
   \<and> (\<forall>j \<in> set (b # js). settled (earliest settled b js) \<le> settled j)"
proof (induction js arbitrary: b)
  case Nil
  then show ?case by simp
next
  case (Cons j js)
  from Cons.IH [of "if settled j < settled b then j else b"]
  show ?case by (auto split: if_splits)
qed

lemma Promise_all_fulfils:
  "Promise_all settled ps = Inr xs \<longleftrightarrow> (\<forall>p \<in> set ps. \<not> isl p) \<and> xs = map projr ps"
proof -
  have "filter (\<lambda>i. isl (ps ! i)) [0..<length ps] = [] \<longleftrightarrow> (\<forall>p \<in> set ps. \<not> isl p)"
    by (auto simp: filter_empty_conv all_set_conv_all_nth)
  then show ?thesis
    by (auto simp: Promise_all_def split: list.splits)
qed

lemma Promise_all_rejects:
  assumes "Promise_all settled ps = Inl e"
  shows "\<exists>i<length ps. ps ! i = Inl e \<and> (\<forall>j<length ps. isl (ps ! j) \<longrightarrow> settled i \<le> settled j)"
proof -
  from assms obtain b js
    where rejected: "filter (\<lambda>i. isl (ps ! i)) [0..<length ps] = b # js"
      and e: "e = projl (ps ! earliest settled b js)"
    by (auto simp: Promise_all_def split: list.splits)
  let ?i = "earliest settled b js"
  have members: "set (b # js) = {i. i < length ps \<and> isl (ps ! i)}"
    using arg_cong [OF rejected, of set] by auto
  from earliest_least [of settled b js] members
  have "?i < length ps" "isl (ps ! ?i)" "\<forall>j<length ps. isl (ps ! j) \<longrightarrow> settled ?i \<le> settled j"
    by auto
  with e show ?thesis by (intro exI [of _ ?i]) auto
qed

lemma volcengine_loop_collects:
  "volcengine_loop g count i results errors trace =
     (results @ map (\<lambda>k. projr (fst (g k))) (filter (\<lambda>k. \<not> isl (fst (g k))) [i..<count]),
      errors @ map (\<lambda>k. e_message (projl (fst (g k)))) (filter (\<lambda>k. isl (fst (g k))) [i..<count]),
      trace @ map (\<lambda>k. (if k > 0 then [Sleep 500] else []) @ snd (g k)) [i..<count])"
proof (induction g count i results errors trace rule: volcengine_loop.induct)
  case (1 g count i results errors trace)
  show ?case
  proof (cases "i < count")
    case False
    then show ?thesis by (subst volcengine_loop.simps) simp
  next
    case True
    then have upt: "[i..<count] = i # [i + 1..<count]"
      by (simp add: upt_conv_Cons)
    show ?thesis
    proof (cases "fst (g i)")
      case (Inl e)
      with True "1.IH"(1) [OF True refl refl Inl] show ?thesis
        by (subst volcengine_loop.simps) (simp add: upt Let_def)
    next
      case (Inr img)
      with True "1.IH"(2) [OF True refl refl Inr] show ?thesis
        by (subst volcengine_loop.simps) (simp add: upt Let_def)
    qed
  qed
qed

section \<open>The jobs of a batch\<close>







section \<open>Arithmetic of the Volcengine size\<close>



lemma Math_round_eq:
  "real_of_int k - 1 / 2 \<le> x \<Longrightarrow> x < real_of_int k + 1 / 2 \<Longrightarrow> Math_round x = k"
  unfolding Math_round_def by linarith

text \<open>Rounding a square root to a multiple of 32, from the squares around it.\<close>

lemma Math_round_sqrt:
  assumes "0 < k" and "(real_of_int (64 * k - 32) / 2)\<^sup>2 \<le> x" and "x < (real_of_int (64 * k + 32) / 2)\<^sup>2"
  shows "Math_round (sqrt x / 32) = k"
proof (rule Math_round_eq)
  from assms(1) have pos: "0 \<le> real_of_int (64 * k - 32) / 2" "0 \<le> real_of_int (64 * k + 32) / 2"
    by simp_all
  from assms(2) have "real_of_int (64 * k - 32) / 2 \<le> sqrt x"
    by (rule real_le_rsqrt)
  then show "real_of_int k - 1 / 2 \<le> sqrt x / 32"
    by simp
  from pos(2) assms(3) have "sqrt x < real_of_int (64 * k + 32) / 2"
    by (rule real_less_lsqrt)
  then show "sqrt x / 32 < real_of_int k + 1 / 2"
    by simp
qed




lemma sides_before_rounding:
  fixes B r :: real
  assumes "0 < r" and "0 \<le> B"
  shows "sqrt (B / r) * r = sqrt (B * r)" and "sqrt (B * r) * sqrt (B / r) = B"
proof -
  have "r = sqrt (r * r)"
    using assms by simp
  then have "sqrt (B / r) * r = sqrt (B / r) * sqrt (r * r)"
    by simp
  also have "\<dots> = sqrt (B / r * (r * r))"
    by (rule real_sqrt_mult [symmetric])
  also have "B / r * (r * r) = B * r"
    using assms by simp
  finally show "sqrt (B / r) * r = sqrt (B * r)" .
  have "sqrt (B * r) * sqrt (B / r) = sqrt (B * r * (B / r))"
    by (rule real_sqrt_mult [symmetric])
  also have "B * r * (B / r) = B * B"
    using assms by simp
  also have "sqrt (B * B) = B"
    using assms by simp
  finally show "sqrt (B * r) * sqrt (B / r) = B" .
qed

lemma calculateSize_dims_rounded:
  assumes "targetRatio aspect custom = Some r" and "0 < r"
  shows "calculateSize_dims resolution aspect custom =
           Some (shrink (Math_round (sqrt ((case resolution of K2 \<Rightarrow> 2048 | K4 \<Rightarrow> 4096)\<^sup>2 * r) / 32) * 32)
                        (Math_round (sqrt ((case resolution of K2 \<Rightarrow> 2048 | K4 \<Rightarrow> 4096)\<^sup>2 / r) / 32) * 32))"
proof (cases resolution)
  case K2
  note sides = sides_before_rounding [OF assms(2), of 4194304]
  from K2 assms show ?thesis
    by (simp add: calculateSize_dims_def RESOLUTION_BASE_SIZE_def MAX_PIXELS_def MIN_PIXELS_def Let_def sides)
next
  case K4
  note sides = sides_before_rounding [OF assms(2), of 16777216]
  from K4 assms show ?thesis
    by (simp add: calculateSize_dims_def RESOLUTION_BASE_SIZE_def MAX_PIXELS_def MIN_PIXELS_def Let_def sides)
qed

lemma parse_sizes:
  "parseInt ''1024'' = Some 1024" "parseInt ''1152'' = Some 1152" "parseInt ''864'' = Some 864"
  "parseInt ''1280'' = Some 1280" "parseInt ''720'' = Some 720" "parseInt ''1512'' = Some 1512"
  "parseInt ''648'' = Some 648"
  by (simp_all add: parseInt_def startsWith_def digit_of_def ascii_space_def wide_space_def)

lemma targetRatio_table:
  "targetRatio SQUARE custom = Some 1"
  "targetRatio LANDSCAPE custom = Some (4 / 3)"
  "targetRatio PORTRAIT custom = Some (3 / 4)"
  "targetRatio WIDESCREEN custom = Some (16 / 9)"
  "targetRatio VERTICAL custom = Some (9 / 16)"
  "targetRatio ULTRAWIDE custom = Some (7 / 3)"
  "targetRatio ULTRATALL custom = Some (3 / 7)"
  by (simp_all add: targetRatio_def VOLCENGINE_ASPECT_RATIOS_def parse_sizes Let_def)



text \<open>The sizes for the ratios of the table, tier by tier.\<close>

lemma calculateSize_dims_K2:
  "targetRatio aspect custom = Some r \<Longrightarrow> 0 < r \<Longrightarrow>
   calculateSize_dims K2 aspect custom =
     Some (shrink (Math_round (sqrt (4194304 * r) / 32) * 32) (Math_round (sqrt (4194304 / r) / 32) * 32))"
  using calculateSize_dims_rounded [of aspect custom r K2] by simp

lemma calculateSize_dims_K4:
  "targetRatio aspect custom = Some r \<Longrightarrow> 0 < r \<Longrightarrow>
   calculateSize_dims K4 aspect custom =
     Some (shrink (Math_round (sqrt (16777216 * r) / 32) * 32) (Math_round (sqrt (16777216 / r) / 32) * 32))"
  using calculateSize_dims_rounded [of aspect custom r K4] by simp

lemma size_K2_SQUARE:
  "calculateSize_dims K2 SQUARE custom = Some (2048, 2048)"
proof -
  have pos: "0 < (1 :: real)"
    by simp
  have W: "Math_round (sqrt (4194304 * 1) / 32) = 64"
    by (rule Math_round_sqrt) (simp_all add: power2_eq_square)
  have H: "Math_round (sqrt (4194304 / 1) / 32) = 64"
    by (rule Math_round_sqrt) (simp_all add: power2_eq_square)
  have "shrink (64 * 32) (64 * 32) = (2048, 2048)"
    by (simp add: shrink.simps MAX_PIXELS_def)
  then show ?thesis
    unfolding calculateSize_dims_K2 [OF targetRatio_table(1) pos] W H by (simp only:)
qed

lemma size_K2_LANDSCAPE:
  "calculateSize_dims K2 LANDSCAPE custom = Some (2368, 1760)"
proof -
  have pos: "0 < ((4 / 3) :: real)"
    by simp
  have W: "Math_round (sqrt (4194304 * (4 / 3)) / 32) = 74"
    by (rule Math_round_sqrt) (simp_all add: power2_eq_square)
  have H: "Math_round (sqrt (4194304 / (4 / 3)) / 32) = 55"
    by (rule Math_round_sqrt) (simp_all add: power2_eq_square)
  have "shrink (74 * 32) (55 * 32) = (2368, 1760)"
    by (simp add: shrink.simps MAX_PIXELS_def)
  then show ?thesis
    unfolding calculateSize_dims_K2 [OF targetRatio_table(2) pos] W H by (simp only:)
qed

lemma size_K2_PORTRAIT:
  "calculateSize_dims K2 PORTRAIT custom = Some (1760, 2368)"
proof -
  have pos: "0 < ((3 / 4) :: real)"
    by simp
  have W: "Math_round (sqrt (4194304 * (3 / 4)) / 32) = 55"
    by (rule Math_round_sqrt) (simp_all add: power2_eq_square)
  have H: "Math_round (sqrt (4194304 / (3 / 4)) / 32) = 74"
    by (rule Math_round_sqrt) (simp_all add: power2_eq_square)
  have "shrink (55 * 32) (74 * 32) = (1760, 2368)"
    by (simp add: shrink.simps MAX_PIXELS_def)
  then show ?thesis
    unfolding calculateSize_dims_K2 [OF targetRatio_table(3) pos] W H by (simp only:)
qed

lemma size_K2_WIDESCREEN:
  "calculateSize_dims K2 WIDESCREEN custom = Some (2720, 1536)"
proof -
  have pos: "0 < ((16 / 9) :: real)"
    by simp
  have W: "Math_round (sqrt (4194304 * (16 / 9)) / 32) = 85"
    by (rule Math_round_sqrt) (simp_all add: power2_eq_square)
  have H: "Math_round (sqrt (4194304 / (16 / 9)) / 32) = 48"
    by (rule Math_round_sqrt) (simp_all add: power2_eq_square)
  have "shrink (85 * 32) (48 * 32) = (2720, 1536)"
    by (simp add: shrink.simps MAX_PIXELS_def)
  then show ?thesis
    unfolding calculateSize_dims_K2 [OF targetRatio_table(4) pos] W H by (simp only:)
qed

lemma size_K2_VERTICAL:
  "calculateSize_dims K2 VERTICAL custom = Some (1536, 2720)"
proof -
  have pos: "0 < ((9 / 16) :: real)"
    by simp
  have W: "Math_round (sqrt (4194304 * (9 / 16)) / 32) = 48"
    by (rule Math_round_sqrt) (simp_all add: power2_eq_square)
  have H: "Math_round (sqrt (4194304 / (9 / 16)) / 32) = 85"
    by (rule Math_round_sqrt) (simp_all add: power2_eq_square)
  have "shrink (48 * 32) (85 * 32) = (1536, 2720)"
    by (simp add: shrink.simps MAX_PIXELS_def)
  then show ?thesis
    unfolding calculateSize_dims_K2 [OF targetRatio_table(5) pos] W H by (simp only:)
qed

lemma size_K2_ULTRAWIDE:
  "calculateSize_dims K2 ULTRAWIDE custom = Some (3136, 1344)"
proof -
  have pos: "0 < ((7 / 3) :: real)"
    by simp
  have W: "Math_round (sqrt (4194304 * (7 / 3)) / 32) = 98"
    by (rule Math_round_sqrt) (simp_all add: power2_eq_square)
  have H: "Math_round (sqrt (4194304 / (7 / 3)) / 32) = 42"
    by (rule Math_round_sqrt) (simp_all add: power2_eq_square)
  have "shrink (98 * 32) (42 * 32) = (3136, 1344)"
    by (simp add: shrink.simps MAX_PIXELS_def)
  then show ?thesis
    unfolding calculateSize_dims_K2 [OF targetRatio_table(6) pos] W H by (simp only:)
qed

lemma size_K2_ULTRATALL:
  "calculateSize_dims K2 ULTRATALL custom = Some (1344, 3136)"
proof -
  have pos: "0 < ((3 / 7) :: real)"
    by simp
  have W: "Math_round (sqrt (4194304 * (3 / 7)) / 32) = 42"
    by (rule Math_round_sqrt) (simp_all add: power2_eq_square)
  have H: "Math_round (sqrt (4194304 / (3 / 7)) / 32) = 98"
    by (rule Math_round_sqrt) (simp_all add: power2_eq_square)
  have "shrink (42 * 32) (98 * 32) = (1344, 3136)"
    by (simp add: shrink.simps MAX_PIXELS_def)
  then show ?thesis
    unfolding calculateSize_dims_K2 [OF targetRatio_table(7) pos] W H by (simp only:)
qed

lemma size_K4_SQUARE:
  "calculateSize_dims K4 SQUARE custom = Some (4096, 4096)"
proof -
  have pos: "0 < (1 :: real)"
    by simp
  have W: "Math_round (sqrt (16777216 * 1) / 32) = 128"
    by (rule Math_round_sqrt) (simp_all add: power2_eq_square)
  have H: "Math_round (sqrt (16777216 / 1) / 32) = 128"
    by (rule Math_round_sqrt) (simp_all add: power2_eq_square)
  have "shrink (128 * 32) (128 * 32) = (4096, 4096)"
    by (simp add: shrink.simps MAX_PIXELS_def)
  then show ?thesis
    unfolding calculateSize_dims_K4 [OF targetRatio_table(1) pos] W H by (simp only:)
qed

lemma size_K4_LANDSCAPE:
  "calculateSize_dims K4 LANDSCAPE custom = Some (4704, 3552)"
proof -
  have pos: "0 < ((4 / 3) :: real)"
    by simp
  have W: "Math_round (sqrt (16777216 * (4 / 3)) / 32) = 148"
    by (rule Math_round_sqrt) (simp_all add: power2_eq_square)
  have H: "Math_round (sqrt (16777216 / (4 / 3)) / 32) = 111"
    by (rule Math_round_sqrt) (simp_all add: power2_eq_square)
  have "shrink (148 * 32) (111 * 32) = (4704, 3552)"
    by (simp add: shrink.simps MAX_PIXELS_def)
  then show ?thesis
    unfolding calculateSize_dims_K4 [OF targetRatio_table(2) pos] W H by (simp only:)
qed

lemma size_K4_PORTRAIT:
  "calculateSize_dims K4 PORTRAIT custom = Some (3552, 4704)"
proof -
  have pos: "0 < ((3 / 4) :: real)"
    by simp
  have W: "Math_round (sqrt (16777216 * (3 / 4)) / 32) = 111"
    by (rule Math_round_sqrt) (simp_all add: power2_eq_square)
  have H: "Math_round (sqrt (16777216 / (3 / 4)) / 32) = 148"
    by (rule Math_round_sqrt) (simp_all add: power2_eq_square)
  have "shrink (111 * 32) (148 * 32) = (3552, 4704)"
    by (simp add: shrink.simps MAX_PIXELS_def)
  then show ?thesis
    unfolding calculateSize_dims_K4 [OF targetRatio_table(3) pos] W H by (simp only:)
qed

lemma size_K4_WIDESCREEN:
  "calculateSize_dims K4 WIDESCREEN custom = Some (5440, 3072)"
proof -
  have pos: "0 < ((16 / 9) :: real)"
    by simp
  have W: "Math_round (sqrt (16777216 * (16 / 9)) / 32) = 171"
    by (rule Math_round_sqrt) (simp_all add: power2_eq_square)
  have H: "Math_round (sqrt (16777216 / (16 / 9)) / 32) = 96"
    by (rule Math_round_sqrt) (simp_all add: power2_eq_square)
  have "shrink (171 * 32) (96 * 32) = (5440, 3072)"
    by (simp add: shrink.simps MAX_PIXELS_def)
  then show ?thesis
    unfolding calculateSize_dims_K4 [OF targetRatio_table(4) pos] W H by (simp only:)
qed

lemma size_K4_VERTICAL:
  "calculateSize_dims K4 VERTICAL custom = Some (3072, 5440)"
proof -
  have pos: "0 < ((9 / 16) :: real)"
    by simp
  have W: "Math_round (sqrt (16777216 * (9 / 16)) / 32) = 96"
    by (rule Math_round_sqrt) (simp_all add: power2_eq_square)
  have H: "Math_round (sqrt (16777216 / (9 / 16)) / 32) = 171"
    by (rule Math_round_sqrt) (simp_all add: power2_eq_square)
  have "shrink (96 * 32) (171 * 32) = (3072, 5440)"
    by (simp add: shrink.simps MAX_PIXELS_def)
  then show ?thesis
    unfolding calculateSize_dims_K4 [OF targetRatio_table(5) pos] W H by (simp only:)
qed

lemma size_K4_ULTRAWIDE:
  "calculateSize_dims K4 ULTRAWIDE custom = Some (6240, 2688)"
proof -
  have pos: "0 < ((7 / 3) :: real)"
    by simp
  have W: "Math_round (sqrt (16777216 * (7 / 3)) / 32) = 196"
    by (rule Math_round_sqrt) (simp_all add: power2_eq_square)
  have H: "Math_round (sqrt (16777216 / (7 / 3)) / 32) = 84"
    by (rule Math_round_sqrt) (simp_all add: power2_eq_square)
  have "shrink (196 * 32) (84 * 32) = (6240, 2688)"
    by (simp add: shrink.simps MAX_PIXELS_def)
  then show ?thesis
    unfolding calculateSize_dims_K4 [OF targetRatio_table(6) pos] W H by (simp only:)
qed

lemma size_K4_ULTRATALL:
  "calculateSize_dims K4 ULTRATALL custom = Some (2688, 6240)"
proof -
  have pos: "0 < ((3 / 7) :: real)"
    by simp
  have W: "Math_round (sqrt (16777216 * (3 / 7)) / 32) = 84"
    by (rule Math_round_sqrt) (simp_all add: power2_eq_square)
  have H: "Math_round (sqrt (16777216 / (3 / 7)) / 32) = 196"
    by (rule Math_round_sqrt) (simp_all add: power2_eq_square)
  have "shrink (84 * 32) (196 * 32) = (2688, 6240)"
    by (simp add: shrink.simps MAX_PIXELS_def)
  then show ?thesis
    unfolding calculateSize_dims_K4 [OF targetRatio_table(7) pos] W H by (simp only:)
qed

lemma targetRatio_21_9: "targetRatio CUSTOM (Some ''21:9'') = Some (7 / 3)"
  by (simp add: targetRatio_def VOLCENGINE_ASPECT_RATIOS_def truthy_def Let_def parseInt_def startsWith_def
        digit_of_def ascii_space_def wide_space_def)

lemma size_K2_21_9:
  "calculateSize_dims K2 CUSTOM (Some ''21:9'') = Some (3136, 1344)"
proof -
  have pos: "0 < ((7 / 3) :: real)"
    by simp
  have W: "Math_round (sqrt (4194304 * (7 / 3)) / 32) = 98"
    by (rule Math_round_sqrt) (simp_all add: power2_eq_square)
  have H: "Math_round (sqrt (4194304 / (7 / 3)) / 32) = 42"
    by (rule Math_round_sqrt) (simp_all add: power2_eq_square)
  have "shrink (98 * 32) (42 * 32) = (3136, 1344)"
    by (simp add: shrink.simps MAX_PIXELS_def)
  then show ?thesis
    unfolding calculateSize_dims_K2 [OF targetRatio_21_9 pos] W H by (simp only:)
qed

lemma size_K4_21_9:
  "calculateSize_dims K4 CUSTOM (Some ''21:9'') = Some (6240, 2688)"
proof -
  have pos: "0 < ((7 / 3) :: real)"
    by simp
  have W: "Math_round (sqrt (16777216 * (7 / 3)) / 32) = 196"
    by (rule Math_round_sqrt) (simp_all add: power2_eq_square)
  have H: "Math_round (sqrt (16777216 / (7 / 3)) / 32) = 84"
    by (rule Math_round_sqrt) (simp_all add: power2_eq_square)
  have "shrink (196 * 32) (84 * 32) = (6240, 2688)"
    by (simp add: shrink.simps MAX_PIXELS_def)
  then show ?thesis
    unfolding calculateSize_dims_K4 [OF targetRatio_21_9 pos] W H by (simp only:)
qed


lemma targetRatio_unparsed: "\<not> parses_as_ratio custom \<Longrightarrow> targetRatio CUSTOM custom = Some 1"
  by (auto simp: targetRatio_def parses_as_ratio_def VOLCENGINE_ASPECT_RATIOS_def Let_def
        split: option.splits)

lemma size_square_ratio:
  assumes "targetRatio aspect custom = Some 1"
  shows "calculateSize_dims K2 aspect custom = Some (2048, 2048)"
    and "calculateSize_dims K4 aspect custom = Some (4096, 4096)"
proof -
  have pos: "0 < (1 :: real)"
    by simp
  have W2: "Math_round (sqrt (4194304 * 1) / 32) = 64" and H2: "Math_round (sqrt (4194304 / 1) / 32) = 64"
    by (rule Math_round_sqrt; simp add: power2_eq_square)+
  have W4: "Math_round (sqrt (16777216 * 1) / 32) = 128" and H4: "Math_round (sqrt (16777216 / 1) / 32) = 128"
    by (rule Math_round_sqrt; simp add: power2_eq_square)+
  have s2: "shrink (64 * 32) (64 * 32) = (2048, 2048)" and s4: "shrink (128 * 32) (128 * 32) = (4096, 4096)"
    by (simp_all add: shrink.simps MAX_PIXELS_def)
  from s2 show "calculateSize_dims K2 aspect custom = Some (2048, 2048)"
    unfolding calculateSize_dims_K2 [OF assms pos] W2 H2 by (simp only:)
  from s4 show "calculateSize_dims K4 aspect custom = Some (4096, 4096)"
    unfolding calculateSize_dims_K4 [OF assms pos] W4 H4 by (simp only:)
qed

lemma show_int_sides: "show_int 2048 = ''2048''" "show_int 4096 = ''4096''"
  by (simp_all add: show_int_def show_nat.simps)




text \<open>
  The sizes of the table do not depend on the last digits of the square roots: a side
  before rounding that is off by up to half a pixel is rounded to the same multiple of 32.
  The rounding error of binary floating-point numbers is many orders of magnitude smaller.
\<close>

lemma Math_round_sqrt_margin:
  assumes "0 < k" and "(real_of_int (64 * k - 31) / 2)\<^sup>2 \<le> x" and "x < (real_of_int (64 * k + 31) / 2)\<^sup>2"
    and "\<bar>v - sqrt x\<bar> \<le> 1 / 2"
  shows "Math_round (v / 32) = k"
proof (rule Math_round_eq)
  from assms(4) have near: "sqrt x - 1 / 2 \<le> v" "v \<le> sqrt x + 1 / 2"
    by linarith+
  from assms(1) have pos: "0 \<le> real_of_int (64 * k + 31) / 2"
    by simp
  from assms(2) have "real_of_int (64 * k - 31) / 2 \<le> sqrt x"
    by (rule real_le_rsqrt)
  with near(1) have "32 * real_of_int k - 16 \<le> v"
    by simp
  then show "real_of_int k - 1 / 2 \<le> v / 32"
    by simp
  from pos assms(3) have "sqrt x < real_of_int (64 * k + 31) / 2"
    by (rule real_less_lsqrt)
  with near(2) have "v < 32 * real_of_int k + 16"
    by simp
  then show "v / 32 < real_of_int k + 1 / 2"
    by simp
qed

lemma table_sides_rounding_margin:
  fixes v :: real
  shows "\<bar>v - sqrt (4194304 * 1)\<bar> \<le> 1 / 2 \<Longrightarrow> Math_round (v / 32) = 64"
    and "\<bar>v - sqrt (4194304 / 1)\<bar> \<le> 1 / 2 \<Longrightarrow> Math_round (v / 32) = 64"
    and "\<bar>v - sqrt (4194304 * (4 / 3))\<bar> \<le> 1 / 2 \<Longrightarrow> Math_round (v / 32) = 74"
    and "\<bar>v - sqrt (4194304 / (4 / 3))\<bar> \<le> 1 / 2 \<Longrightarrow> Math_round (v / 32) = 55"
    and "\<bar>v - sqrt (4194304 * (3 / 4))\<bar> \<le> 1 / 2 \<Longrightarrow> Math_round (v / 32) = 55"
    and "\<bar>v - sqrt (4194304 / (3 / 4))\<bar> \<le> 1 / 2 \<Longrightarrow> Math_round (v / 32) = 74"
    and "\<bar>v - sqrt (4194304 * (16 / 9))\<bar> \<le> 1 / 2 \<Longrightarrow> Math_round (v / 32) = 85"
    and "\<bar>v - sqrt (4194304 / (16 / 9))\<bar> \<le> 1 / 2 \<Longrightarrow> Math_round (v / 32) = 48"
    and "\<bar>v - sqrt (4194304 * (9 / 16))\<bar> \<le> 1 / 2 \<Longrightarrow> Math_round (v / 32) = 48"
    and "\<bar>v - sqrt (4194304 / (9 / 16))\<bar> \<le> 1 / 2 \<Longrightarrow> Math_round (v / 32) = 85"
    and "\<bar>v - sqrt (4194304 * (7 / 3))\<bar> \<le> 1 / 2 \<Longrightarrow> Math_round (v / 32) = 98"
    and "\<bar>v - sqrt (4194304 / (7 / 3))\<bar> \<le> 1 / 2 \<Longrightarrow> Math_round (v / 32) = 42"
    and "\<bar>v - sqrt (4194304 * (3 / 7))\<bar> \<le> 1 / 2 \<Longrightarrow> Math_round (v / 32) = 42"
    and "\<bar>v - sqrt (4194304 / (3 / 7))\<bar> \<le> 1 / 2 \<Longrightarrow> Math_round (v / 32) = 98"
    and "\<bar>v - sqrt (16777216 * 1)\<bar> \<le> 1 / 2 \<Longrightarrow> Math_round (v / 32) = 128"
    and "\<bar>v - sqrt (16777216 / 1)\<bar> \<le> 1 / 2 \<Longrightarrow> Math_round (v / 32) = 128"
    and "\<bar>v - sqrt (16777216 * (4 / 3))\<bar> \<le> 1 / 2 \<Longrightarrow> Math_round (v / 32) = 148"
    and "\<bar>v - sqrt (16777216 / (4 / 3))\<bar> \<le> 1 / 2 \<Longrightarrow> Math_round (v / 32) = 111"
    and "\<bar>v - sqrt (16777216 * (3 / 4))\<bar> \<le> 1 / 2 \<Longrightarrow> Math_round (v / 32) = 111"
    and "\<bar>v - sqrt (16777216 / (3 / 4))\<bar> \<le> 1 / 2 \<Longrightarrow> Math_round (v / 32) = 148"
    and "\<bar>v - sqrt (16777216 * (16 / 9))\<bar> \<le> 1 / 2 \<Longrightarrow> Math_round (v / 32) = 171"
    and "\<bar>v - sqrt (16777216 / (16 / 9))\<bar> \<le> 1 / 2 \<Longrightarrow> Math_round (v / 32) = 96"
    and "\<bar>v - sqrt (16777216 * (9 / 16))\<bar> \<le> 1 / 2 \<Longrightarrow> Math_round (v / 32) = 96"
    and "\<bar>v - sqrt (16777216 / (9 / 16))\<bar> \<le> 1 / 2 \<Longrightarrow> Math_round (v / 32) = 171"
    and "\<bar>v - sqrt (16777216 * (7 / 3))\<bar> \<le> 1 / 2 \<Longrightarrow> Math_round (v / 32) = 196"
    and "\<bar>v - sqrt (16777216 / (7 / 3))\<bar> \<le> 1 / 2 \<Longrightarrow> Math_round (v / 32) = 84"
    and "\<bar>v - sqrt (16777216 * (3 / 7))\<bar> \<le> 1 / 2 \<Longrightarrow> Math_round (v / 32) = 84"
    and "\<bar>v - sqrt (16777216 / (3 / 7))\<bar> \<le> 1 / 2 \<Longrightarrow> Math_round (v / 32) = 196"
  by (erule Math_round_sqrt_margin [rotated 3]; simp add: power2_eq_square)+

section \<open>The claims\<close>

subsection \<open>C1: partial success of \<open>generateVariations\<close>\<close>

text \<open>
  C1, as stated, fails for the adapters that await \<open>Promise.all\<close>. With two variations
  of which the first succeeds and the second fails, \<open>generateVariations\<close> of the Gemini
  adapter and of the Stability adapter throw the error of the second.
\<close>

theorem promise_all_discards_partial_success:
  "fst (generateImage GeminiGenerator sample_env net_ok DEFAULT_SETTINGS [] None) = Inr ''iVBORw0KGgoAAA''
   \<and> fst (generateVariations GeminiGenerator sample_env
            (\<lambda>i. if i = 0 then net_ok else net_failing (Error ''Invalid argument''))
            (\<lambda>i. i) DEFAULT_SETTINGS [] None 2)
       = Inl (Some (Error ''Invalid argument''))
   \<and> fst (generateVariations (StabilityGenerator ''sk-stab'') sample_env
            (\<lambda>i. if i = 0 then net_ok else net_failing (Error ''Invalid argument''))
            (\<lambda>i. i) DEFAULT_SETTINGS [] None 2)
       = Inl (Some (Error ''Invalid argument''))"
proof -
  have permanent: "\<not> gemini_isRetryable (Error ''Invalid argument'')"
    "\<not> fetch_isRetryable (Error ''Invalid argument'')"
    by (simp_all add: gemini_isRetryable_def fetch_isRetryable_def Error_def jsval_truthy_def
          startsWith_def)
  have two: "[0..<2] = [0, Suc 0]"
    by (simp add: upt_rec)
  have g0: "fst (generateImage GeminiGenerator sample_env net_ok DEFAULT_SETTINGS [] None)
              = Inr ''iVBORw0KGgoAAA''"
    by (simp add: generateImage_def tag_def gemini_generateImage_def gemini_attempts_unrolled
          net_ok_def gemini_try_def)
  have g1: "fst (generateImage GeminiGenerator sample_env (net_failing (Error ''Invalid argument''))
                   DEFAULT_SETTINGS [] None) = Inl (Some (Error ''Invalid argument''))"
    by (simp add: generateImage_def tag_def gemini_generateImage_def gemini_attempts_unrolled
          net_failing_def gemini_try_def permanent)
  have s0: "fst (generateImage (StabilityGenerator ''sk-stab'') sample_env net_ok DEFAULT_SETTINGS [] None)
              = Inr ''iVBORw0KGgoDDD''"
    by (simp add: generateImage_def tag_def stability_generateImage_def fetch_attempts_unrolled
          net_ok_def Let_def)
  have s1: "fst (generateImage (StabilityGenerator ''sk-stab'') sample_env
                   (net_failing (Error ''Invalid argument'')) DEFAULT_SETTINGS [] None)
              = Inl (Some (Error ''Invalid argument''))"
    by (simp add: generateImage_def tag_def stability_generateImage_def fetch_attempts_unrolled
          net_failing_def Let_def permanent)
  have g: "fst (generateVariations GeminiGenerator sample_env
            (\<lambda>i. if i = 0 then net_ok else net_failing (Error ''Invalid argument''))
            (\<lambda>i. i) DEFAULT_SETTINGS [] None 2)
       = Inl (Some (Error ''Invalid argument''))"
    by (simp add: generateVariations_def gemini_generateVariations_def staggered_generateVariations_def
          Promise_all_def two g0 g1 Let_def)
  have s: "fst (generateVariations (StabilityGenerator ''sk-stab'') sample_env
            (\<lambda>i. if i = 0 then net_ok else net_failing (Error ''Invalid argument''))
            (\<lambda>i. i) DEFAULT_SETTINGS [] None 2)
       = Inl (Some (Error ''Invalid argument''))"
    by (simp add: generateVariations_def stability_generateVariations_def staggered_generateVariations_def
          Promise_all_def two s0 s1 Let_def)
  from g0 g s show ?thesis by blast
qed

text \<open>
  C1, amended. For \<open>count \<ge> 1\<close>, with \<open>generateOne i\<close> the \<open>i\<close>-th image call:
  \<open>generateVariations\<close> of the Volcengine adapter returns a list exactly when at least
  one call succeeds, and the list holds the images of the successful calls in call
  order, so it is not empty; when every call fails it throws an error with the message
  of the first call's error. \<open>generateVariations\<close> of the Gemini, Stability and DALL-E
  adapters returns a list exactly when every call succeeds, the images in call order;
  otherwise it throws what one failed call threw, a call that failed no later than
  every other failed call.
\<close>

theorem generateVariations_outcomes:
  assumes "1 \<le> count"
  shows "((\<exists>images. fst (volcengine_generateVariations generateOne count) = Inr images)
            \<longleftrightarrow> (\<exists>i<count. \<not> isl (fst (generateOne i))))
       \<and> (\<forall>images. fst (volcengine_generateVariations generateOne count) = Inr images
            \<longrightarrow> images \<noteq> []
              \<and> images = map (\<lambda>i. projr (fst (generateOne i)))
                           (filter (\<lambda>i. \<not> isl (fst (generateOne i))) [0..<count]))
       \<and> ((\<forall>i<count. isl (fst (generateOne i)))
            \<longrightarrow> fst (volcengine_generateVariations generateOne count)
                  = Inl (Error (e_message (projl (fst (generateOne 0))))))
       \<and> (\<forall>f \<in> {gemini_generateVariations, stability_generateVariations, dalle_generateVariations}.
             ((\<exists>images. fst (f generateImage' settled count) = Inr images)
                \<longleftrightarrow> (\<forall>i<count. \<not> isl (fst (generateImage' i))))
           \<and> (\<forall>images. fst (f generateImage' settled count) = Inr images
                \<longrightarrow> images = map (\<lambda>i. projr (fst (generateImage' i))) [0..<count])
           \<and> (\<forall>e. fst (f generateImage' settled count) = Inl e
                \<longrightarrow> (\<exists>i<count. fst (generateImage' i) = Inl e
                       \<and> (\<forall>j<count. isl (fst (generateImage' j)) \<longrightarrow> settled i \<le> settled j))))"
proof -
  let ?ok = "filter (\<lambda>i. \<not> isl (fst (generateOne i))) [0..<count]"
  let ?bad = "filter (\<lambda>i. isl (fst (generateOne i))) [0..<count]"
  have loop: "volcengine_loop generateOne count 0 [] [] [] =
      (map (\<lambda>k. projr (fst (generateOne k))) ?ok,
       map (\<lambda>k. e_message (projl (fst (generateOne k)))) ?bad,
       map (\<lambda>k. (if k > 0 then [Sleep 500] else []) @ snd (generateOne k)) [0..<count])"
    by (simp add: volcengine_loop_collects)
  have ok_empty: "?ok = [] \<longleftrightarrow> (\<forall>i<count. isl (fst (generateOne i)))"
    by (auto simp: filter_empty_conv)
  have all_bad: "?bad = 0 # filter (\<lambda>i. isl (fst (generateOne i))) [1..<count]"
    if "\<forall>i<count. isl (fst (generateOne i))"
    using that assms by (simp add: upt_conv_Cons)
  have v1: "(\<exists>images. fst (volcengine_generateVariations generateOne count) = Inr images)
            \<longleftrightarrow> (\<exists>i<count. \<not> isl (fst (generateOne i)))"
    using ok_empty by (auto simp: volcengine_generateVariations_def loop split: list.splits)
  have v2: "\<forall>images. fst (volcengine_generateVariations generateOne count) = Inr images
            \<longrightarrow> images \<noteq> [] \<and> images = map (\<lambda>i. projr (fst (generateOne i))) ?ok"
    by (auto simp: volcengine_generateVariations_def loop split: list.splits if_splits)
  have v3: "(\<forall>i<count. isl (fst (generateOne i)))
            \<longrightarrow> fst (volcengine_generateVariations generateOne count)
                  = Inl (Error (e_message (projl (fst (generateOne 0)))))"
  proof
    assume bad: "\<forall>i<count. isl (fst (generateOne i))"
    with ok_empty have "?ok = []" by simp
    with all_bad [OF bad] show "fst (volcengine_generateVariations generateOne count)
                  = Inl (Error (e_message (projl (fst (generateOne 0)))))"
      by (simp add: volcengine_generateVariations_def loop)
  qed
  have p: "((\<exists>images. fst (staggered_generateVariations stagger generateImage' settled count) = Inr images)
                \<longleftrightarrow> (\<forall>i<count. \<not> isl (fst (generateImage' i))))
           \<and> (\<forall>images. fst (staggered_generateVariations stagger generateImage' settled count) = Inr images
                \<longrightarrow> images = map (\<lambda>i. projr (fst (generateImage' i))) [0..<count])
           \<and> (\<forall>e. fst (staggered_generateVariations stagger generateImage' settled count) = Inl e
                \<longrightarrow> (\<exists>i<count. fst (generateImage' i) = Inl e
                       \<and> (\<forall>j<count. isl (fst (generateImage' j)) \<longrightarrow> settled i \<le> settled j)))"
    for stagger
  proof -
    let ?ps = "map fst (map (\<lambda>i. generateImage' i) [0..<count])"
    have run: "fst (staggered_generateVariations stagger generateImage' settled count) = Promise_all settled ?ps"
      by (simp add: staggered_generateVariations_def Let_def)
    have a: "(\<exists>images. Promise_all settled ?ps = Inr images) \<longleftrightarrow> (\<forall>i<count. \<not> isl (fst (generateImage' i)))"
      by (auto simp: Promise_all_fulfils)
    have b: "\<forall>images. Promise_all settled ?ps = Inr images
                \<longrightarrow> images = map (\<lambda>i. projr (fst (generateImage' i))) [0..<count]"
      by (auto simp: Promise_all_fulfils)
    have c: "\<exists>i<count. fst (generateImage' i) = Inl e
                       \<and> (\<forall>j<count. isl (fst (generateImage' j)) \<longrightarrow> settled i \<le> settled j)"
      if "Promise_all settled ?ps = Inl e" for e
      using Promise_all_rejects [OF that] by auto
    from a b c show ?thesis unfolding run by blast
  qed
  from v1 v2 v3 p [of 500] p [of 1000] show ?thesis
    unfolding gemini_generateVariations_def stability_generateVariations_def dalle_generateVariations_def
    by simp
qed

theorem generateVariations_outcomes_witness:
  "fst (volcengine_generateVariations
          (\<lambda>i::nat. volcengine_generateImage (Some ''ark-key'') PROXY_BASE
                  (volcengine_api (if i = 0 then net_failing (Error ''Invalid argument'') else net_ok))
                  DEFAULT_SETTINGS [] None) 2)
     = Inr [''iVBORw0KGgoBBB'']
   \<and> fst (volcengine_generateVariations
          (\<lambda>i::nat. volcengine_generateImage (Some ''ark-key'') PROXY_BASE
                  (volcengine_api (net_failing (Error (if i = 0 then ''first'' else ''second''))))
                  DEFAULT_SETTINGS [] None) 2)
     = Inl (Error ''first'')"
proof -
  let ?mixed = "\<lambda>i::nat. volcengine_generateImage (Some ''ark-key'') PROXY_BASE
                  (volcengine_api (if i = 0 then net_failing (Error ''Invalid argument'') else net_ok))
                  DEFAULT_SETTINGS [] None"
  let ?failing = "\<lambda>i::nat. volcengine_generateImage (Some ''ark-key'') PROXY_BASE
                  (volcengine_api (net_failing (Error (if i = 0 then ''first'' else ''second''))))
                  DEFAULT_SETTINGS [] None"
  have count: "(1::nat) \<le> 2" by simp
  have two: "[0..<2] = [0, Suc 0]" and below: "i < 2 \<longleftrightarrow> i = 0 \<or> i = Suc 0" for i :: nat
    by (auto simp: upt_rec)
  have mixed: "fst (?mixed 0) = Inl (Error ''Invalid argument'')" "fst (?mixed (Suc 0)) = Inr ''iVBORw0KGgoBBB''"
    by (simp_all add: volcengine_generateImage_def truthy_def net_failing_def net_ok_def Error_def Let_def)
  have failing: "fst (?failing 0) = Inl (Error ''first'')" "fst (?failing (Suc 0)) = Inl (Error ''second'')"
    by (simp_all add: volcengine_generateImage_def truthy_def net_failing_def Error_def Let_def)
  note mixed_facts = generateVariations_outcomes
    [OF count, where generateOne = ?mixed and generateImage' = ?mixed and settled = "\<lambda>i. i"]
  note failing_facts = generateVariations_outcomes
    [OF count, where generateOne = ?failing and generateImage' = ?failing and settled = "\<lambda>i. i"]
  have "\<exists>i<2. \<not> isl (fst (?mixed i))"
    using mixed by (auto simp: below)
  with conjunct1 [OF mixed_facts]
  obtain images where images: "fst (volcengine_generateVariations ?mixed 2) = Inr images"
    by auto
  with conjunct1 [OF conjunct2 [OF mixed_facts]]
  have "images = map (\<lambda>i. projr (fst (?mixed i))) (filter (\<lambda>i. \<not> isl (fst (?mixed i))) [0..<2])"
    by auto
  then have "images = [''iVBORw0KGgoBBB'']"
    unfolding two using mixed by simp
  with images have a: "fst (volcengine_generateVariations ?mixed 2) = Inr [''iVBORw0KGgoBBB'']"
    by simp
  have "\<forall>i<2. isl (fst (?failing i))"
    using failing by (auto simp: below)
  with conjunct1 [OF conjunct2 [OF conjunct2 [OF failing_facts]]]
  have "fst (volcengine_generateVariations ?failing 2) = Inl (Error (e_message (projl (fst (?failing 0)))))"
    by simp
  with failing have b: "fst (volcengine_generateVariations ?failing 2) = Inl (Error ''first'')"
    by (simp add: Error_def)
  from a b show ?thesis by blast
qed

subsection \<open>C2: the adapters do not share one retry policy\<close>




subsection \<open>C3: the retry loop of a wrapped call\<close>



subsection \<open>C4: the factory checks the credential and falls back to Gemini\<close>

text \<open>
  C4. \<open>createGenerator\<close> throws the credential message of the provider it selects
  whenever that provider's key is absent or empty: the Volcengine message for
  \<open>volcengine\<close>, the Gemini message for \<open>gemini\<close> and for every other identifier.
  An identifier outside the known set is never an error of its own: the call does exactly
  what it does for \<open>gemini\<close>, so it returns the Gemini adapter as soon as the Gemini key
  is present. The function takes no network and sends nothing; when it throws inside
  \<open>generateSlide\<close>, the events of that call are slide updates only. The earlier factory,
  which takes no keys, returns the Gemini adapter for every identifier it does not know.
\<close>

theorem createGenerator_credentials:
  "(type = VOLCENGINE \<and> \<not> truthy (volcengineSecretKey apiKeys)
      \<longrightarrow> createGenerator type apiKeys = Inl (Error MSG_VOLCENGINE_KEY))
   \<and> (type \<noteq> VOLCENGINE \<and> \<not> truthy (geminiApiKey apiKeys)
      \<longrightarrow> createGenerator type apiKeys = Inl (Error MSG_GEMINI_KEY))
   \<and> (type \<noteq> GEMINI \<and> type \<noteq> VOLCENGINE
      \<longrightarrow> createGenerator type apiKeys = createGenerator GEMINI apiKeys)
   \<and> (type \<noteq> VOLCENGINE \<and> truthy (geminiApiKey apiKeys)
      \<longrightarrow> createGenerator type apiKeys = Inr GeminiGenerator)
   \<and> (\<forall>e. createGenerator (generatorType settings) apiKeys = Inl e
      \<longrightarrow> (\<forall>ev \<in> set (snd (snd (generateSlide env settings apiKeys net settled slides i cur))).
             \<exists>u. ev = UpdateSlide i u))
   \<and> (type \<notin> {GEMINI, DALLE, STABILITY} \<longrightarrow> createGenerator_env env type = GeminiGenerator)"
proof -
  have keys: "(type = VOLCENGINE \<and> \<not> truthy (volcengineSecretKey apiKeys)
      \<longrightarrow> createGenerator type apiKeys = Inl (Error MSG_VOLCENGINE_KEY))
   \<and> (type \<noteq> VOLCENGINE \<and> \<not> truthy (geminiApiKey apiKeys)
      \<longrightarrow> createGenerator type apiKeys = Inl (Error MSG_GEMINI_KEY))
   \<and> (type \<noteq> GEMINI \<and> type \<noteq> VOLCENGINE
      \<longrightarrow> createGenerator type apiKeys = createGenerator GEMINI apiKeys)
   \<and> (type \<noteq> VOLCENGINE \<and> truthy (geminiApiKey apiKeys)
      \<longrightarrow> createGenerator type apiKeys = Inr GeminiGenerator)"
    by (simp add: createGenerator_def new_GeminiGenerator_def GEMINI_def VOLCENGINE_def)
  have quiet: "\<forall>e. createGenerator (generatorType settings) apiKeys = Inl e
      \<longrightarrow> (\<forall>ev \<in> set (snd (snd (generateSlide env settings apiKeys net settled slides i cur))).
             \<exists>u. ev = UpdateSlide i u)"
    by (auto simp: generateSlide_def Let_def split: option.splits)
  have fallback: "type \<notin> {GEMINI, DALLE, STABILITY} \<longrightarrow> createGenerator_env env type = GeminiGenerator"
    by (simp add: createGenerator_env_def new_GeminiGenerator_def)
  from keys quiet fallback show ?thesis by blast
qed

theorem createGenerator_credentials_witness:
  "createGenerator ''dalle'' DEFAULT_API_KEYS = Inl (Error MSG_GEMINI_KEY)
   \<and> createGenerator VOLCENGINE DEFAULT_API_KEYS = Inl (Error MSG_VOLCENGINE_KEY)
   \<and> createGenerator ''dalle'' (DEFAULT_API_KEYS\<lparr>geminiApiKey := Some ''AIza''\<rparr>) = Inr GeminiGenerator
   \<and> createGenerator_env sample_env ''volcengine'' = GeminiGenerator
   \<and> snd (snd (generateSlide sample_env DEFAULT_SETTINGS DEFAULT_API_KEYS (\<lambda>i. net_ok) (\<lambda>i. i)
                 [createEmptySlide ''a''] ''a'' [createEmptySlide ''a'']))
       = [UpdateSlide ''a'' \<lparr>u_status = Some status_generating, u_errorMessage = Some None,
                              u_generatedImages = None\<rparr>,
          UpdateSlide ''a'' \<lparr>u_status = Some status_error, u_errorMessage = Some (Some MSG_VOLCENGINE_KEY),
                              u_generatedImages = None\<rparr>]"
proof -
  have a: "createGenerator ''dalle'' DEFAULT_API_KEYS = Inl (Error MSG_GEMINI_KEY)"
    using createGenerator_credentials [of "''dalle''" DEFAULT_API_KEYS]
    by (simp add: DEFAULT_API_KEYS_def truthy_def VOLCENGINE_def)
  have b: "createGenerator VOLCENGINE DEFAULT_API_KEYS = Inl (Error MSG_VOLCENGINE_KEY)"
    using createGenerator_credentials [of VOLCENGINE DEFAULT_API_KEYS]
    by (simp add: DEFAULT_API_KEYS_def truthy_def)
  have c: "createGenerator ''dalle'' (DEFAULT_API_KEYS\<lparr>geminiApiKey := Some ''AIza''\<rparr>) = Inr GeminiGenerator"
    using createGenerator_credentials [of "''dalle''" "DEFAULT_API_KEYS\<lparr>geminiApiKey := Some ''AIza''\<rparr>"]
    by (simp add: DEFAULT_API_KEYS_def truthy_def VOLCENGINE_def)
  have d: "createGenerator_env sample_env ''volcengine'' = GeminiGenerator"
    using createGenerator_credentials [where type = "''volcengine''" and env = sample_env]
    by (simp add: GEMINI_def DALLE_def STABILITY_def)
  have key: "createGenerator (generatorType DEFAULT_SETTINGS) DEFAULT_API_KEYS = Inl (Error MSG_GEMINI_KEY)"
    by (simp add: createGenerator_def DEFAULT_SETTINGS_def DEFAULT_API_KEYS_def truthy_def)
  have incl: "str_includes (error_toString (Error MSG_GEMINI_KEY)) ''API key'' = False"
             "str_includes (error_toString (Error MSG_GEMINI_KEY)) ''Key'' = True"
    by (simp_all add: error_toString_def Error_def MSG_GEMINI_KEY_def startsWith_def)
  have e: "snd (snd (generateSlide sample_env DEFAULT_SETTINGS DEFAULT_API_KEYS (\<lambda>i. net_ok) (\<lambda>i. i)
                 [createEmptySlide ''a''] ''a'' [createEmptySlide ''a'']))
       = [UpdateSlide ''a'' \<lparr>u_status = Some status_generating, u_errorMessage = Some None,
                              u_generatedImages = None\<rparr>,
          UpdateSlide ''a'' \<lparr>u_status = Some status_error, u_errorMessage = Some (Some MSG_VOLCENGINE_KEY),
                              u_generatedImages = None\<rparr>]"
    by (simp add: generateSlide_def key incl createEmptySlide_def Let_def)
       (simp add: DEFAULT_API_KEYS_def truthy_def)
  from a b c d e show ?thesis by blast
qed

subsection \<open>C5: the budget for every input\<close>




subsection \<open>C6: the sizes for the ratios of the table\<close>

text \<open>
  C6. For both tiers and each of the seven ratios of \<open>VOLCENGINE_ASPECT_RATIOS\<close>,
  whatever the custom string, \<open>calculateSize\<close> returns the size listed here; its
  width and height are multiples of 32 and its area lies between 921600 and 16777216.
\<close>

theorem table_sizes_in_budget:
  "calculateSize_dims K2 SQUARE custom = Some (2048, 2048)
   \<and> calculateSize_dims K2 LANDSCAPE custom = Some (2368, 1760)
   \<and> calculateSize_dims K2 PORTRAIT custom = Some (1760, 2368)
   \<and> calculateSize_dims K2 WIDESCREEN custom = Some (2720, 1536)
   \<and> calculateSize_dims K2 VERTICAL custom = Some (1536, 2720)
   \<and> calculateSize_dims K2 ULTRAWIDE custom = Some (3136, 1344)
   \<and> calculateSize_dims K2 ULTRATALL custom = Some (1344, 3136)
   \<and> calculateSize_dims K4 SQUARE custom = Some (4096, 4096)
   \<and> calculateSize_dims K4 LANDSCAPE custom = Some (4704, 3552)
   \<and> calculateSize_dims K4 PORTRAIT custom = Some (3552, 4704)
   \<and> calculateSize_dims K4 WIDESCREEN custom = Some (5440, 3072)
   \<and> calculateSize_dims K4 VERTICAL custom = Some (3072, 5440)
   \<and> calculateSize_dims K4 ULTRAWIDE custom = Some (6240, 2688)
   \<and> calculateSize_dims K4 ULTRATALL custom = Some (2688, 6240)
   \<and> (\<forall>resolution. \<forall>aspect \<in> fst ` set VOLCENGINE_ASPECT_RATIOS.
         \<exists>w h. calculateSize_dims resolution aspect custom = Some (w, h)
               \<and> 32 dvd w \<and> 32 dvd h \<and> MIN_PIXELS \<le> w * h \<and> w * h \<le> MAX_PIXELS)"
proof -
  note sizes = size_K2_SQUARE size_K2_LANDSCAPE size_K2_PORTRAIT size_K2_WIDESCREEN size_K2_VERTICAL size_K2_ULTRAWIDE size_K2_ULTRATALL size_K4_SQUARE size_K4_LANDSCAPE size_K4_PORTRAIT size_K4_WIDESCREEN size_K4_VERTICAL size_K4_ULTRAWIDE size_K4_ULTRATALL
  have "\<exists>w h. calculateSize_dims resolution aspect custom = Some (w, h)
               \<and> 32 dvd w \<and> 32 dvd h \<and> MIN_PIXELS \<le> w * h \<and> w * h \<le> MAX_PIXELS"
    if "aspect \<in> fst ` set VOLCENGINE_ASPECT_RATIOS" for resolution aspect
    using that
    by (cases resolution) (auto simp: VOLCENGINE_ASPECT_RATIOS_def sizes MIN_PIXELS_def MAX_PIXELS_def)
  then have "(\<forall>resolution. \<forall>aspect \<in> fst ` set VOLCENGINE_ASPECT_RATIOS.
         \<exists>w h. calculateSize_dims resolution aspect custom = Some (w, h)
               \<and> 32 dvd w \<and> 32 dvd h \<and> MIN_PIXELS \<le> w * h \<and> w * h \<le> MAX_PIXELS)"
    by blast
  with sizes show ?thesis
    by (simp only: simp_thms)
qed

theorem table_sizes_in_budget_witness:
  "ULTRAWIDE \<in> fst ` set VOLCENGINE_ASPECT_RATIOS
   \<and> (\<exists>w h. calculateSize_dims K4 ULTRAWIDE (Some ''21:9'') = Some (w, h)
          \<and> 32 dvd w \<and> 32 dvd h \<and> MIN_PIXELS \<le> w * h \<and> w * h \<le> MAX_PIXELS)"
proof -
  have listed: "ULTRAWIDE \<in> fst ` set VOLCENGINE_ASPECT_RATIOS"
    by (simp add: VOLCENGINE_ASPECT_RATIOS_def)
  from table_sizes_in_budget [of "Some ''21:9''"]
  have "\<forall>resolution. \<forall>aspect \<in> fst ` set VOLCENGINE_ASPECT_RATIOS.
         \<exists>w h. calculateSize_dims resolution aspect (Some ''21:9'') = Some (w, h)
               \<and> 32 dvd w \<and> 32 dvd h \<and> MIN_PIXELS \<le> w * h \<and> w * h \<le> MAX_PIXELS"
    by (elim conjE)
  with listed show ?thesis
    by blast
qed

subsection \<open>C7: the custom ratio 21:9\<close>

text \<open>
  C7. With the custom ratio selected and the custom string \<open>21:9\<close>, \<open>calculateSize\<close>
  returns 3136x1344 for the tier 2K and 6240x2688 for the tier 4K; for both tiers the
  width divided by the height is less than 0.02 away from 21/9.
\<close>

theorem custom_21_9_ratio:
  "calculateSize_dims K2 CUSTOM (Some ''21:9'') = Some (3136, 1344)
   \<and> calculateSize_dims K4 CUSTOM (Some ''21:9'') = Some (6240, 2688)
   \<and> (\<forall>resolution. \<exists>w h. calculateSize_dims resolution CUSTOM (Some ''21:9'') = Some (w, h)
          \<and> \<bar>real_of_int w / real_of_int h - 21 / 9\<bar> < 2 / 100)"
proof -
  have "\<exists>w h. calculateSize_dims resolution CUSTOM (Some ''21:9'') = Some (w, h)
          \<and> \<bar>real_of_int w / real_of_int h - 21 / 9\<bar> < 2 / 100" for resolution
    by (cases resolution) (simp_all add: size_K2_21_9 size_K4_21_9)
  with size_K2_21_9 size_K4_21_9 show ?thesis
    by blast
qed

subsection \<open>C8: a custom string that does not parse\<close>

text \<open>
  C8, as stated, fails for the Stability adapter: for the custom string \<open>abc\<close>, which
  does not pass the test, \<open>getDimensionsFromAspectRatio\<close> returns 1920x1080.
\<close>

theorem stability_fallback_is_widescreen:
  "\<not> parses_as_ratio (Some ''abc'')
   \<and> getDimensionsFromAspectRatio CUSTOM (Some ''abc'') = (1920, 1080)"
  by (simp add: parses_as_ratio_def getDimensionsFromAspectRatio_def ratioMap_def truthy_def Let_def)

text \<open>
  C8, amended. With the custom ratio selected and a custom string that is absent, empty
  or does not pass the test, every resolver returns a value and throws nothing:
  \<open>calculateSize\<close> of the Volcengine adapter returns the square of the tier, 2048x2048
  or 4096x4096; \<open>getDimensionsFromAspectRatio\<close> of the Stability adapter returns its
  default 1920x1080; \<open>getSizeFromSettings\<close> of the DALL-E adapter returns its default
  1792x1024.
\<close>

theorem unparsed_custom_ratio:
  assumes "\<not> parses_as_ratio custom"
  shows "calculateSize_dims K2 CUSTOM custom = Some (2048, 2048)
       \<and> calculateSize_dims K4 CUSTOM custom = Some (4096, 4096)
       \<and> calculateSize K2 CUSTOM custom = ''2048x2048''
       \<and> calculateSize K4 CUSTOM custom = ''4096x4096''
       \<and> getDimensionsFromAspectRatio CUSTOM custom = (1920, 1080)
       \<and> getSizeFromSettings (settings\<lparr>aspectRatio := CUSTOM, customAspectRatio := custom\<rparr>) = ''1792x1024''"
proof -
  note square = size_square_ratio [OF targetRatio_unparsed [OF assms]]
  have strings: "calculateSize K2 CUSTOM custom = ''2048x2048''" "calculateSize K4 CUSTOM custom = ''4096x4096''"
    by (simp_all add: calculateSize_def square show_int_sides)
  have stability: "getDimensionsFromAspectRatio CUSTOM custom = (1920, 1080)"
    using assms
    by (auto simp: getDimensionsFromAspectRatio_def parses_as_ratio_def ratioMap_def Let_def
          split: option.splits)
  have dalle: "getSizeFromSettings (settings\<lparr>aspectRatio := CUSTOM, customAspectRatio := custom\<rparr>) = ''1792x1024''"
    by (simp add: getSizeFromSettings_def sizeMap_def AspectRatio_val_def Let_def)
  from square strings stability dalle show ?thesis
    by blast
qed

theorem unparsed_custom_ratio_witness:
  "calculateSize K2 CUSTOM (Some ''abc'') = ''2048x2048''
   \<and> calculateSize K4 CUSTOM (Some ''16:'') = ''4096x4096''
   \<and> calculateSize_dims K2 CUSTOM None = Some (2048, 2048)"
proof -
  have "\<not> parses_as_ratio (Some ''abc'')" "\<not> parses_as_ratio (Some ''16:'')" "\<not> parses_as_ratio None"
    by (simp_all add: parses_as_ratio_def truthy_def Let_def parseInt_def startsWith_def digit_of_def
          ascii_space_def wide_space_def)
  from this [THEN unparsed_custom_ratio] show ?thesis
    by blast
qed

subsection \<open>C9: the batch runs its jobs one after the other\<close>



subsection \<open>C10: the Gemini adapter ignores the key it is constructed with\<close>

text \<open>
  C10. For any two non-empty Gemini keys the factory returns adapters that behave alike:
  \<open>generateImage\<close> and \<open>generateVariations\<close> give the same outcome and the same
  events for every environment, network, settings and slide. Every request the adapter
  sends is the one built from the environment and the settings, and its client key is
  \<open>process.env.API_KEY\<close>, not the key given to the factory.
\<close>

theorem gemini_constructor_key_ignored:
  assumes "k1 \<noteq> []" and "k2 \<noteq> []"
  shows "\<exists>g1 g2.
           createGenerator GEMINI (apiKeys\<lparr>geminiApiKey := Some k1\<rparr>) = Inr g1
         \<and> createGenerator GEMINI (apiKeys\<lparr>geminiApiKey := Some k2\<rparr>) = Inr g2
         \<and> generateImage g1 env net settings slideContent slideImage
             = generateImage g2 env net settings slideContent slideImage
         \<and> generateVariations g1 env nets settled settings slideContent slideImage count
             = generateVariations g2 env nets settled settings slideContent slideImage count
         \<and> (\<forall>r. Invoke r \<in> set (snd (generateImage g1 env net settings slideContent slideImage))
                \<longrightarrow> (\<exists>q. r = GeminiReq q
                         \<and> q = gemini_request env settings slideContent slideImage
                         \<and> client_apiKey q = API_KEY env))"
proof -
  have sent: "\<exists>q. r = GeminiReq q \<and> q = gemini_request env settings slideContent slideImage
                \<and> client_apiKey q = API_KEY env"
    if "Invoke r \<in> set (snd (generateImage GeminiGenerator env net settings slideContent slideImage))" for r
  proof -
    from that have "Invoke r \<in> set (map (map_event GeminiReq)
        (snd (gemini_generateImage env (gemini_api net) settings slideContent slideImage)))"
      by (simp add: generateImage_def tag_def)
    from Invoke_map_event [OF this] obtain q
      where q: "Invoke q \<in> set (snd (gemini_generateImage env (gemini_api net) settings slideContent slideImage))"
        and r: "r = GeminiReq q"
      by blast
    from q have "q = gemini_request env settings slideContent slideImage"
      by (auto simp: gemini_generateImage_def dest: gemini_attempts_events)
    moreover have "client_apiKey (gemini_request env settings slideContent slideImage) = API_KEY env"
      by (simp add: gemini_request_def Let_def)
    ultimately show ?thesis using r by simp
  qed
  from assms have "createGenerator GEMINI (apiKeys\<lparr>geminiApiKey := Some k1\<rparr>) = Inr GeminiGenerator"
    and "createGenerator GEMINI (apiKeys\<lparr>geminiApiKey := Some k2\<rparr>) = Inr GeminiGenerator"
    by (simp_all add: createGenerator_GEMINI)
  with sent show ?thesis by blast
qed

theorem gemini_constructor_key_ignored_witness:
  "createGenerator GEMINI (DEFAULT_API_KEYS\<lparr>geminiApiKey := Some ''key-one''\<rparr>) = Inr GeminiGenerator
   \<and> createGenerator GEMINI (DEFAULT_API_KEYS\<lparr>geminiApiKey := Some ''key-two''\<rparr>) = Inr GeminiGenerator
   \<and> snd (generateImage GeminiGenerator sample_env net_ok DEFAULT_SETTINGS ''Agenda'' None)
       = [Invoke (GeminiReq (gemini_request sample_env DEFAULT_SETTINGS ''Agenda'' None))]
   \<and> client_apiKey (gemini_request sample_env DEFAULT_SETTINGS ''Agenda'' None) = Some ''env-key''"
proof -
  have one: "''key-one'' \<noteq> []" and two: "''key-two'' \<noteq> []" by simp_all
  have made: "createGenerator GEMINI (DEFAULT_API_KEYS\<lparr>geminiApiKey := Some ''key-one''\<rparr>) = Inr GeminiGenerator"
             "createGenerator GEMINI (DEFAULT_API_KEYS\<lparr>geminiApiKey := Some ''key-two''\<rparr>) = Inr GeminiGenerator"
    by (simp_all add: createGenerator_def truthy_def new_GeminiGenerator_def)
  have events: "snd (generateImage GeminiGenerator sample_env net_ok DEFAULT_SETTINGS ''Agenda'' None)
       = [Invoke (GeminiReq (gemini_request sample_env DEFAULT_SETTINGS ''Agenda'' None))]"
    by (simp add: generateImage_def tag_def gemini_generateImage_def gemini_attempts.simps retries_def
          gemini_try_def net_ok_def)
  have "Invoke (GeminiReq (gemini_request sample_env DEFAULT_SETTINGS ''Agenda'' None))
          \<in> set (snd (generateImage GeminiGenerator sample_env net_ok DEFAULT_SETTINGS ''Agenda'' None))"
    by (simp add: events)
  with gemini_constructor_key_ignored [OF one two, of DEFAULT_API_KEYS sample_env net_ok DEFAULT_SETTINGS
        "''Agenda''" None] made
  have "client_apiKey (gemini_request sample_env DEFAULT_SETTINGS ''Agenda'' None) = API_KEY sample_env"
    by auto
  with made events show ?thesis by (simp add: sample_env_def)
qed


end
